theory Spec2Isabelle
  imports Main "HOL-Library.Word"
begin

unbundle bit_operations_syntax

section \<open>AsTTYSpy: a shallow embedding of asttyspy.c\<close>

text \<open>
  The program is a virtual TTY/TDD on top of the Asterisk manager interface (AMI).
  Everything it does to the outside world (writes to stdout and stderr, flushes,
  terminal attribute changes, manager actions, sleeps, process exit) is recorded, in
  program order, in a list of effects carried by the program state. Everything the
  outside world decides (the result of a manager action, whether \<open>strdup\<close> finds
  memory, what a directory query or a \<open>read\<close> returns) is an oracle of the
  environment, a function of the effects so far.
\<close>

subsection \<open>Characters and C strings\<close>

definition NUL :: char where "NUL = CHR 0x00"
definition LF :: char where "LF = CHR 0x0A"
definition CR :: char where "CR = CHR 0x0D"
definition BACKSLASH :: char where "BACKSLASH = CHR 0x5C"

text \<open>\<^verbatim>\<open>#define KEY_ESCAPE 27\<close>\<close>

definition KEY_ESCAPE :: char where "KEY_ESCAPE = CHR 0x1B"

text \<open>\<^verbatim>\<open>#define TERM_CLEAR "\e[1;1H\e[2J"\<close>\<close>

definition TERM_CLEAR :: string where
  "TERM_CLEAR = KEY_ESCAPE # ''[1;1H'' @ KEY_ESCAPE # ''[2J''"

definition TTY_MENU_OPTS :: string where
  "TTY_MENU_OPTS = ''ESC + [H] Help [Q] Quit [1] Dial Number [2] Hangup [4] Send Greeting [8] Clear Screen'' @ [LF]"

text \<open>\<^verbatim>\<open>#define TTY_RX_OPTIONS "b(1)s"\<close>\<close>

definition TTY_RX_OPTIONS :: string where "TTY_RX_OPTIONS = ''b(1)s''"

text \<open>A byte buffer read as a C string: the bytes before the first NUL.\<close>

definition cstr :: "char list \<Rightarrow> string" where
  "cstr buf = takeWhile (\<lambda>c. c \<noteq> NUL) buf"

text \<open>
  The loops of \<open>send_msg\<close> and \<open>ami_callback\<close> that walk a duplicated string and
  overwrite one character by another:
  \<^verbatim>\<open>while (*c) { if (*c == a) { *c = b; } c++; }\<close>
\<close>

fun replace_char :: "char \<Rightarrow> char \<Rightarrow> string \<Rightarrow> string" where
  "replace_char a b [] = []"
| "replace_char a b (c # cs) = (if c = a then b else c) # replace_char a b cs"

subsection \<open>The terminal, the manager interface and the effects\<close>

text \<open>
  \<open>struct termios\<close>; \<open>tcflag_t\<close> is a 32-bit unsigned integer. \<open>ICANON\<close> and
  \<open>ECHO\<close> are the values of the Linux headers.
\<close>

record termios =
  c_iflag :: "32 word"
  c_oflag :: "32 word"
  c_cflag :: "32 word"
  c_lflag :: "32 word"
  c_cc :: "8 word list"

definition ICANON :: "32 word" where "ICANON = 0x2"
definition ECHO :: "32 word" where "ECHO = 0x8"

text \<open>
  A manager action as the program hands it to \<open>ami_action\<close>: the action's name and
  the formatted parameter text.
\<close>

datatype ami_request = AmiAction (act_name: string) (act_params: string)

text \<open>
  An event of the manager interface is read through \<open>ami_keyvalue\<close> only, which
  gives the value of a key or a null pointer. A response is the array
  \<open>resp->events\<close> of \<open>resp->size\<close> events.
\<close>

type_synonym ami_event = "string \<rightharpoonup> string"
type_synonym ami_response = "ami_event list"

definition ami_keyvalue :: "ami_event \<Rightarrow> string \<Rightarrow> string option" where
  "ami_keyvalue event key = event key"

datatype effect =
    Printf string
  | Fflush
  | Eprintf string
  | Tcsetattr termios
  | Sent ami_request int
  | ShowChannels
  | AmiDisconnect
  | Usleep nat
  | SignalSIGINT
  | Exit int

record env =
  action_result :: "effect list \<Rightarrow> ami_request \<Rightarrow> int"
  strdup_ok :: "effect list \<Rightarrow> bool"
  show_channels :: "effect list \<Rightarrow> ami_response option"
  dial_read :: "effect list \<Rightarrow> string option"

text \<open>
  The globals of the program (\<open>ttychan\<close>, \<open>origterm\<close>, \<open>ttyterm\<close>, the three
  internal flags and the option \<open>always_refresh\<close>), the attributes the terminal
  currently has, and the effects so far.
\<close>

record state =
  ttychan :: string
  origterm :: termios
  ttyterm :: termios
  new_channel :: int
  our_turn :: int
  tty_active :: int
  always_refresh :: int
  tty_attr :: termios
  effects :: "effect list"

definition emit :: "effect \<Rightarrow> state \<Rightarrow> state" where
  "emit e st = st\<lparr>effects := effects st @ [e]\<rparr>"

text \<open>\<open>tcsetattr(STDIN_FILENO, TCSANOW, &t)\<close>\<close>

definition tcsetattr :: "termios \<Rightarrow> state \<Rightarrow> state" where
  "tcsetattr t st = emit (Tcsetattr t) (st\<lparr>tty_attr := t\<rparr>)"

text \<open>
  \<open>ami_action_response_result(ami_action(name, fmt, ...))\<close>: the request is sent and
  the environment answers 0 for success, anything else for failure.
\<close>

definition ami_action_response_result :: "env \<Rightarrow> string \<Rightarrow> string \<Rightarrow> state \<Rightarrow> int \<times> state" where
  "ami_action_response_result env name params st =
     (let req = AmiAction name params;
          res = action_result env (effects st) req
      in (res, emit (Sent req res) st))"

subsection \<open>The event relay: \<open>ami_callback\<close>\<close>

text \<open>
  The result is \<open>None\<close> where the C code hands a null pointer to \<open>strcmp\<close> (a key the
  event does not have). The first test is \<open>tty_active == 1 && (!strcmp(eventname, ...) || ...)\<close>,
  so the event name is compared only while \<open>tty_active\<close> is 1, and again once it is
  2 or more; below 1 the callback returns without looking at it. The body between
  \<open>pthread_mutex_lock\<close> and \<open>pthread_mutex_unlock\<close> runs as one step.
\<close>

definition ami_callback :: "env \<Rightarrow> ami_event \<Rightarrow> state \<Rightarrow> state option" where
  "ami_callback env event st =
     (if tty_active st = 1 then
        (case ami_keyvalue event ''Event'' of
           None \<Rightarrow> None
         | Some eventname \<Rightarrow>
             if eventname = ''Newchannel'' \<or> eventname = ''Hangup'' \<or> eventname = ''DeviceStateChange''
             then Some (st\<lparr>new_channel := 1\<rparr>)
             else Some st)
      else if tty_active st < 2 then Some st
      else
        (case ami_keyvalue event ''Event'' of
           None \<Rightarrow> None
         | Some eventname \<Rightarrow>
             if eventname \<noteq> ''TddRxMsg'' then Some st
             else
               (case ami_keyvalue event ''Channel'' of
                  None \<Rightarrow> None
                | Some channel \<Rightarrow>
                    if channel \<noteq> ttychan st then Some st
                    else
                      (case ami_keyvalue event ''Message'' of
                         None \<Rightarrow> None
                       | Some msg \<Rightarrow>
                           let st1 = (if our_turn st \<noteq> 0
                                      then (emit (Printf (LF # ''TTY: '')) st)\<lparr>our_turn := 0\<rparr>
                                      else st);
                               st2 = (if msg = [BACKSLASH, CHR ''n'']
                                      then emit (Printf [LF]) st1
                                      else if strdup_ok env (effects st1)
                                      then emit (Printf (replace_char (CHR ''_'') (CHR '' '') msg)) st1
                                      else st1)
                           in Some (emit Fflush st2)))))"

text \<open>\<open>simple_disconnect_callback\<close>: a message on stderr, then \<open>exit(EXIT_FAILURE)\<close>.\<close>

definition simple_disconnect_callback :: "state \<Rightarrow> state" where
  "simple_disconnect_callback st =
     emit (Exit 1) (emit (Eprintf (LF # ''AMI was forcibly disconnected...'' @ [LF])) st)"

subsection \<open>Outbound tones and text: \<open>send_dtmf\<close>, \<open>send_msg\<close>\<close>

text \<open>
  \<^verbatim>\<open>#define IS_DTMF(x) (isdigit(x) || (x >= 'A' && x <= 'D') || x == '*' || x == '#')\<close>
\<close>

definition isdigit :: "char \<Rightarrow> bool" where
  "isdigit x = (x \<in> set ''0123456789'')"

definition IS_DTMF :: "char \<Rightarrow> bool" where
  "IS_DTMF x = (isdigit x \<or> x \<in> set ''ABCD'' \<or> x = CHR ''*'' \<or> x = CHR ''#'')"

definition send_dtmf :: "env \<Rightarrow> char \<Rightarrow> state \<Rightarrow> int \<times> state" where
  "send_dtmf env digit st =
     ami_action_response_result env ''PlayDTMF''
       (''Channel:'' @ ttychan st @ [CR, LF] @ ''Digit:'' @ [digit]) st"

definition send_msg :: "env \<Rightarrow> string \<Rightarrow> state \<Rightarrow> int \<times> state" where
  "send_msg env typed st =
     (if \<not> strdup_ok env (effects st) then (- 1, st)
      else
        let ttymsg = replace_char (CHR '' '') (CHR ''_'') typed;
            (res, st1) = ami_action_response_result env ''TddTx''
                           (''Channel:'' @ ttychan st @ [CR, LF] @ ''Message:'' @ ttymsg) st;
            st2 = (if res = 0 \<and> our_turn st1 = 0
                   then (emit (Printf (LF # ''CA : '')) st1)\<lparr>our_turn := 1\<rparr>
                   else st1);
            st3 = emit (Printf typed) st2;
            st4 = (if res \<noteq> 0
                   then emit (Eprintf (LF # ''*** CALL DISCONNECTED ***'' @ [LF])) st3
                   else emit Fflush st3)
        in (res, st4))"

subsection \<open>The input state machine: \<open>handle_input\<close>\<close>

text \<open>
  What one pass through a blocking loop finds on the terminal: \<open>poll\<close> interrupted by
  a signal, \<open>poll\<close> failing, \<open>poll\<close> returning with no event, or \<open>poll\<close> reporting
  input together with what the read that follows gives.
\<close>

datatype 'a poll_ev = PollEintr | PollError | PollNone | PollIn 'a

text \<open>
  How far a function came on the input it was given: it returned a value, it is still
  in its loop (blocked in \<open>poll\<close>, with its local variables), or it left the defined
  behaviour of C (an array read past its end, an unterminated string).
\<close>

datatype 'l outcome = Returned int state | Running 'l state | Undefined state

text \<open>The value a function returned, if it did, and the state it reached.\<close>

fun returned :: "'l outcome \<Rightarrow> int option" where
  "returned (Returned rc s) = Some rc"
| "returned (Running l s) = None"
| "returned (Undefined s) = None"

fun state_of :: "'l outcome \<Rightarrow> state" where
  "state_of (Returned rc s) = s"
| "state_of (Running l s) = s"
| "state_of (Undefined s) = s"

text \<open>The local variables of \<open>handle_input\<close> that live across iterations.\<close>

record hi_locals =
  dtmf_mode :: int
  got_escape :: int
  dialnum :: "char list"

text \<open>
  The loop that sends a dialled number, started at the beginning of \<open>dialnum\<close>:
  \<^verbatim>\<open>while (*current_digit) { if (IS_DTMF(*current_digit)) { if (send_dtmf(*current_digit)) return -1; usleep(100000); } current_digit++; }\<close>
  It stops at the first NUL byte; when the array holds none, it reads past the array.
\<close>

datatype scan_result = ScanEnd state | ScanFail state | ScanOverrun state

fun dial_digits :: "env \<Rightarrow> char list \<Rightarrow> state \<Rightarrow> scan_result" where
  "dial_digits env [] st = ScanOverrun st"
| "dial_digits env (d # ds) st =
     (if d = NUL then ScanEnd st
      else if IS_DTMF d then
        (case send_dtmf env d st of
           (res, st1) \<Rightarrow>
             if res \<noteq> 0 then ScanFail st1
             else dial_digits env ds (emit (Usleep 100000) st1))
      else dial_digits env ds st)"

fun scan_state :: "scan_result \<Rightarrow> state" where
  "scan_state (ScanEnd s) = s"
| "scan_state (ScanFail s) = s"
| "scan_state (ScanOverrun s) = s"

text \<open>
  The \<open>switch\<close> on the key that follows the escape key. \<open>read\<close> into \<open>dialnum\<close>
  (64 bytes) overwrites the first \<open>digits_read\<close> bytes and leaves the rest as it was.
\<close>

definition esc_command :: "env \<Rightarrow> char \<Rightarrow> hi_locals \<Rightarrow> state \<Rightarrow> hi_locals outcome" where
  "esc_command env c loc st =
     (if c = CHR ''q'' \<or> c = CHR ''Q'' then Returned (- 1) st
      else if c = CHR ''h'' \<or> c = CHR ''H''
      then Running loc (emit Fflush (emit (Printf (LF # TTY_MENU_OPTS)) st))
      else if c = CHR ''d''
      then Running (loc\<lparr>dtmf_mode := (if dtmf_mode loc \<noteq> 0 then 0 else 1)\<rparr>) st
      else if c = CHR ''1'' then
        (let st1 = emit Fflush (emit (Printf (LF # ''NBR: '')) st);
             st2 = tcsetattr (origterm st1) st1;
             rd = dial_read env (effects st2);
             st3 = tcsetattr (ttyterm st2) st2
         in case rd of
              None \<Rightarrow> Running loc st3
            | Some bytes \<Rightarrow>
                (let got = take 64 bytes in
                 if got = [] then Running loc st3
                 else
                   (let buf = got @ drop (length got) (dialnum loc) in
                    case dial_digits env buf st3 of
                      ScanEnd s \<Rightarrow> Running (loc\<lparr>dialnum := buf\<rparr>) s
                    | ScanFail s \<Rightarrow> Returned (- 1) s
                    | ScanOverrun s \<Rightarrow> Undefined s)))
      else if c = CHR ''2'' then Returned 0 st
      else if c = CHR ''4'' then
        (case send_msg env ''HELLO GA'' st of
           (res, st1) \<Rightarrow> if res \<noteq> 0 then Returned (- 1) st1 else Running loc st1)
      else if c = CHR ''8''
      then Running loc (emit Fflush (emit (Printf TERM_CLEAR) st))
      else Running loc st)"

text \<open>One iteration of the loop of \<open>handle_input\<close> after a successful one-byte read.\<close>

definition handle_key :: "env \<Rightarrow> char \<Rightarrow> hi_locals \<Rightarrow> state \<Rightarrow> hi_locals outcome" where
  "handle_key env c loc st =
     (if c = KEY_ESCAPE then Running (loc\<lparr>got_escape := 1\<rparr>) st
      else if got_escape loc \<noteq> 0 then esc_command env c (loc\<lparr>got_escape := 0\<rparr>) st
      else if dtmf_mode loc \<noteq> 0 \<and> IS_DTMF c then
        (case send_dtmf env c st of
           (res, st1) \<Rightarrow> if res \<noteq> 0 then Returned (- 1) st1 else Running loc st1)
      else
        (case send_msg env (cstr [c, NUL]) st of
           (res, st1) \<Rightarrow> if res \<noteq> 0 then Returned (- 1) st1 else Running loc st1))"

text \<open>
  The loop of \<open>handle_input\<close> over what the terminal delivers; \<open>PollIn None\<close> is a
  read that returns less than one byte.
\<close>

fun handle_input_loop ::
  "env \<Rightarrow> char option poll_ev list \<Rightarrow> hi_locals \<Rightarrow> state \<Rightarrow> hi_locals outcome" where
  "handle_input_loop env [] loc st = Running loc st"
| "handle_input_loop env (PollEintr # evs) loc st = handle_input_loop env evs loc st"
| "handle_input_loop env (PollError # evs) loc st = Returned (- 1) st"
| "handle_input_loop env (PollNone # evs) loc st = handle_input_loop env evs loc st"
| "handle_input_loop env (PollIn None # evs) loc st = Returned (- 1) st"
| "handle_input_loop env (PollIn (Some c) # evs) loc st =
     (case handle_key env c loc st of
        Running loc' st' \<Rightarrow> handle_input_loop env evs loc' st'
      | Returned rc st' \<Rightarrow> Returned rc st'
      | Undefined st' \<Rightarrow> Undefined st')"

text \<open>
  \<open>handle_input\<close>: \<open>dtmf_mode\<close> and \<open>got_escape\<close> start at 0; \<open>dialnum\<close> is not
  initialised, so its first content \<open>stack\<close> is whatever the stack holds.
\<close>

definition handle_input ::
  "env \<Rightarrow> char option poll_ev list \<Rightarrow> char list \<Rightarrow> state \<Rightarrow> hi_locals outcome" where
  "handle_input env evs stack st =
     handle_input_loop env evs \<lparr>dtmf_mode = 0, got_escape = 0, dialnum = stack\<rparr> st"

subsection \<open>The channel directory: \<open>print_channels\<close>, \<open>get_channel\<close>\<close>

text \<open>
  What \<open>printf\<close> does with \<open>%d\<close>, \<open>%4d\<close>, \<open>%8s\<close> and \<open>%-40s\<close>: decimal digits, and
  padding with spaces to a least width, on the left or on the right. A null pointer
  for \<open>%s\<close> is printed as \<open>(null)\<close> by the C library the program is built with.
\<close>

fun show_nat :: "nat \<Rightarrow> string" where
  "show_nat n =
     (if n < 10 then [''0123456789'' ! n]
      else show_nat (n div 10) @ [''0123456789'' ! (n mod 10)])"

declare show_nat.simps [simp del]

definition show_int :: "int \<Rightarrow> string" where
  "show_int k = (if k < 0 then CHR ''-'' # show_nat (nat (- k)) else show_nat (nat k))"

definition rjust :: "nat \<Rightarrow> string \<Rightarrow> string" where
  "rjust w s = replicate (w - length s) (CHR '' '') @ s"

definition ljust :: "nat \<Rightarrow> string \<Rightarrow> string" where
  "ljust w s = s @ replicate (w - length s) (CHR '' '')"

definition str_arg :: "string option \<Rightarrow> string" where
  "str_arg p = (case p of None \<Rightarrow> ''(null)'' | Some s \<Rightarrow> s)"

text \<open>
  \<^verbatim>\<open>#define AMI_CHAN_FORMAT_HDR "%4s | %-40s | %8s | %15s | %15s\n"\<close>
  with the arguments \<open>"#", "Channel", "Duration", "Caller ID", "Called No."\<close>, and
  \<^verbatim>\<open>#define AMI_CHAN_FORMAT_MSG "%4d | %-40s | %8s | %15s | %15s\n"\<close>
  with the number of the row and four fields of its event.
\<close>

definition AMI_CHAN_FORMAT_HDR :: string where
  "AMI_CHAN_FORMAT_HDR =
     rjust 4 ''#'' @ '' | '' @ ljust 40 ''Channel'' @ '' | '' @ rjust 8 ''Duration'' @ '' | '' @
     rjust 15 ''Caller ID'' @ '' | '' @ rjust 15 ''Called No.'' @ [LF]"

definition AMI_CHAN_FORMAT_MSG :: "int \<Rightarrow> ami_event \<Rightarrow> string" where
  "AMI_CHAN_FORMAT_MSG n event =
     rjust 4 (show_int n) @ '' | '' @
     ljust 40 (str_arg (ami_keyvalue event ''Channel'')) @ '' | '' @
     rjust 8 (str_arg (ami_keyvalue event ''Duration'')) @ '' | '' @
     rjust 15 (str_arg (ami_keyvalue event ''CallerIDNum'')) @ '' | '' @
     rjust 15 (str_arg (ami_keyvalue event ''ConnectedLineNum'')) @ [LF]"

text \<open>
  The loop of \<open>print_channels\<close>,
  \<^verbatim>\<open>for (i = 1; i < resp->size - 1; i++) printf(AMI_CHAN_FORMAT_MSG, i, ...)\<close>,
  from the value \<open>n\<close> of \<open>i\<close> on; it gives the value \<open>i\<close> has at the end.
\<close>

function print_rows :: "ami_response \<Rightarrow> int \<Rightarrow> state \<Rightarrow> int \<times> state" where
  "print_rows events n st =
     (if n < int (length events) - 1
      then print_rows events (n + 1) (emit (Printf (AMI_CHAN_FORMAT_MSG n (events ! nat n))) st)
      else (n, st))"
  by pat_completeness auto
termination
  by (relation "measure (\<lambda>(events, n, st). nat (int (length events) - 1 - n))") auto

declare print_rows.simps [simp del]

text \<open>
  \<open>print_channels\<close>: the response and the final \<open>i\<close> (written through \<open>iptr\<close>), or
  nothing when the query fails.
\<close>

definition print_channels :: "env \<Rightarrow> state \<Rightarrow> (ami_response \<times> int) option \<times> state" where
  "print_channels env st =
     (let st0 = emit ShowChannels st in
      case show_channels env (effects st) of
        None \<Rightarrow> (None, emit (Eprintf (''Failed to get channel list'' @ [LF])) st0)
      | Some events \<Rightarrow>
          (let st1 = emit (Printf (''Channels: '' @ show_int (int (length events) - 2) @ [LF])) st0;
               st2 = emit (Printf AMI_CHAN_FORMAT_HDR) st1;
               (n, st3) = print_rows events 1 st2
           in (Some (events, n), st3)))"

text \<open>
  \<open>wait_for_input\<close> over the results of its calls of \<open>poll\<close>: \<open>None\<close> when it is
  still waiting.
\<close>

fun wait_for_input :: "unit poll_ev list \<Rightarrow> int option" where
  "wait_for_input [] = None"
| "wait_for_input (PollEintr # ps) = wait_for_input ps"
| "wait_for_input (PollError # ps) = Some (- 1)"
| "wait_for_input (PollNone # ps) = Some 0"
| "wait_for_input (PollIn u # ps) = Some 1"

text \<open>
  \<open>strcasecmp(a, b) == 0\<close>: equal after \<open>tolower\<close> on every character. \<open>atoi\<close>:
  white space, an optional sign, then decimal digits up to the first character that is
  none; \<open>None\<close> where the value does not fit an \<open>int\<close> (the behaviour is undefined).
\<close>

definition tolower :: "char \<Rightarrow> char" where
  "tolower c =
     (case map_of (zip ''ABCDEFGHIJKLMNOPQRSTUVWXYZ'' ''abcdefghijklmnopqrstuvwxyz'') c of
        Some l \<Rightarrow> l
      | None \<Rightarrow> c)"

definition strcasecmp_eq :: "string \<Rightarrow> string \<Rightarrow> bool" where
  "strcasecmp_eq a b = (map tolower a = map tolower b)"

definition isspace :: "char \<Rightarrow> bool" where
  "isspace c = (c \<in> set [CHR '' '', CHR 0x09, LF, CHR 0x0B, CHR 0x0C, CR])"

definition digit_val :: "char \<Rightarrow> int" where
  "digit_val c = int (of_char c) - 48"

definition atoi :: "string \<Rightarrow> int option" where
  "atoi s =
     (let s1 = dropWhile isspace s;
          neg = (s1 \<noteq> [] \<and> hd s1 = CHR ''-'');
          s2 = (if s1 \<noteq> [] \<and> (hd s1 = CHR ''-'' \<or> hd s1 = CHR ''+'') then tl s1 else s1);
          v = foldl (\<lambda>a c. a * 10 + digit_val c) 0 (takeWhile isdigit s2);
          r = (if neg then - v else v)
      in if - 2147483648 \<le> r \<and> r \<le> 2147483647 then Some r else None)"

text \<open>The local variables of \<open>get_channel\<close>.\<close>

record gc_locals =
  channo :: string
  chan_no :: int
  gc_resp :: "ami_response option"
  gc_i :: int
  invalid :: int

text \<open>
  The first block of the loop of \<open>get_channel\<close>:
  \<^verbatim>\<open>if (new_channel || always_refresh) { ... resp = print_channels(&i); if (!resp) return -1; ... new_channel = 0; }\<close>
  The first component is \<open>None\<close> for the \<open>return -1\<close>. \<open>selection_banner\<close> is the
  four calls of \<open>printf\<close> and the \<open>fflush\<close> the block starts with.
\<close>

definition selection_banner :: "state \<Rightarrow> state" where
  "selection_banner st =
     emit Fflush
       (emit (Printf (''i.e. the channel with which the TTY user is currently bridged'' @ [LF]))
         (emit (Printf (''Target channel number should be the non-TTY side of the call'' @ [LF]))
           (emit (Printf (''*** AsTTYSpy ***'' @ [LF]))
             (emit (Printf TERM_CLEAR) st))))"

definition refresh_listing :: "env \<Rightarrow> gc_locals \<Rightarrow> state \<Rightarrow> gc_locals option \<times> state" where
  "refresh_listing env loc st =
     (if new_channel st \<noteq> 0 \<or> always_refresh st \<noteq> 0 then
        (let st1 = selection_banner st
         in case print_channels env st1 of
              (None, st2) \<Rightarrow> (None, st2)
            | (Some (events, n), st2) \<Rightarrow>
                (let st3 = (if invalid loc \<noteq> 0
                            then (let s = emit (Printf (''Invalid channel number: '' @ channo loc)) st2
                                  in if LF \<notin> set (channo loc) then emit (Printf [LF]) s else s)
                            else st2);
                     st4 = emit Fflush (emit (Printf ''=> Channel No.: '') st3)
                 in (Some (loc\<lparr>gc_resp := Some events, gc_i := n, invalid := 0\<rparr>),
                     st4\<lparr>new_channel := 0\<rparr>)))
      else (Some loc, st))"

text \<open>
  The end of \<open>get_channel\<close>, after the loop: with \<open>res = 0\<close> the channel name of
  \<open>resp->events[chan_no]\<close> is copied into \<open>ttychan\<close> (256 bytes) with \<open>strncpy\<close>.
  Undefined: a null \<open>resp\<close>, an index outside the array, an event with no channel
  name, and a name of 256 characters or more, which leaves \<open>ttychan\<close> with no
  terminating NUL.
\<close>

definition gc_finish :: "int \<Rightarrow> gc_locals \<Rightarrow> state \<Rightarrow> gc_locals outcome" where
  "gc_finish res loc st =
     (if res = 0 then
        (case gc_resp loc of
           None \<Rightarrow> Undefined st
         | Some events \<Rightarrow>
             if chan_no loc < 0 \<or> int (length events) \<le> chan_no loc then Undefined st
             else
               (case ami_keyvalue (events ! nat (chan_no loc)) ''Channel'' of
                  None \<Rightarrow> Undefined st
                | Some ch \<Rightarrow>
                    if length ch < 256 then Returned 0 (st\<lparr>ttychan := ch\<rparr>)
                    else Undefined (st\<lparr>ttychan := take 256 ch\<rparr>)))
      else Returned res st)"

text \<open>
  One pass of the loop of \<open>get_channel\<close> is given: whether the event thread has seen
  a topology event since the last pass (it sets \<open>new_channel\<close> while \<open>tty_active\<close> is
  1), the results of \<open>poll\<close> inside \<open>wait_for_input\<close>, and what \<open>fgets\<close> puts into
  \<open>channo\<close> (\<open>None\<close> for a null result).
\<close>

datatype sel_ev = SelEv bool "unit poll_ev list" "string option"

fun get_channel_loop :: "env \<Rightarrow> sel_ev list \<Rightarrow> gc_locals \<Rightarrow> state \<Rightarrow> gc_locals outcome" where
  "get_channel_loop env [] loc st = Running loc st"
| "get_channel_loop env (SelEv topo polls line # evs) loc st =
     (case refresh_listing env loc
             (if topo \<and> tty_active st = 1 then st\<lparr>new_channel := 1\<rparr> else st) of
        (None, st1) \<Rightarrow> Returned (- 1) st1
      | (Some loc1, st1) \<Rightarrow>
          (case wait_for_input polls of
             None \<Rightarrow> Running loc1 st1
           | Some w \<Rightarrow>
               if w < 0 then gc_finish (- 1) loc1 st1
               else if w = 0 then get_channel_loop env evs loc1 st1
               else
                 (case line of
                    None \<Rightarrow> gc_finish (- 1) loc1 st1
                  | Some s \<Rightarrow>
                      if strcasecmp_eq s (''q'' @ [LF])
                      then gc_finish (- 1) (loc1\<lparr>channo := s\<rparr>) st1
                      else if s \<noteq> [LF] then
                        (case atoi s of
                           None \<Rightarrow> Undefined st1
                         | Some n \<Rightarrow>
                             if n \<ge> 1 \<and> n < gc_i loc1
                             then gc_finish 0 (loc1\<lparr>channo := s, chan_no := n\<rparr>) st1
                             else get_channel_loop env evs
                                    (loc1\<lparr>channo := s, chan_no := n, invalid := 1\<rparr>)
                                    (st1\<lparr>new_channel := 1\<rparr>))
                      else get_channel_loop env evs (loc1\<lparr>channo := s\<rparr>)
                             (st1\<lparr>new_channel := 1\<rparr>))))"

text \<open>
  \<open>get_channel\<close>: \<open>resp\<close> starts as a null pointer and \<open>invalid\<close> at 0; \<open>channo\<close>,
  \<open>chan_no\<close> and \<open>i\<close> are not initialised and start as the stack has them.
\<close>

definition get_channel :: "env \<Rightarrow> sel_ev list \<Rightarrow> gc_locals \<Rightarrow> state \<Rightarrow> gc_locals outcome" where
  "get_channel env evs stack st =
     get_channel_loop env evs (stack\<lparr>gc_resp := None, invalid := 0\<rparr>) st"

subsection \<open>The session: \<open>restore_term\<close>, \<open>ttyspy\<close>\<close>

text \<open>\<open>restore_term\<close>, the handler of SIGINT; it ends in \<open>exit(EXIT_FAILURE)\<close>.\<close>

definition restore_term :: "state \<Rightarrow> state" where
  "restore_term st =
     emit (Exit 1)
       (emit (Eprintf (LF # ''AsTTYSpy exiting...'' @ [LF]))
         (emit AmiDisconnect (tcsetattr (origterm st) (st\<lparr>tty_active := 0\<rparr>))))"

text \<open>
  What one pass of the loop of \<open>ttyspy\<close> is given: the input and the uninitialised
  locals of \<open>get_channel\<close>, and the input and the uninitialised \<open>dialnum\<close> of
  \<open>handle_input\<close>.
\<close>

record round =
  sel_input :: "sel_ev list"
  sel_stack :: gc_locals
  key_input :: "char option poll_ev list"
  key_stack :: "char list"

text \<open>The two statements after the loop of \<open>ttyspy\<close>; it then returns 0.\<close>

definition ttyspy_end :: "state \<Rightarrow> state" where
  "ttyspy_end st = tcsetattr (origterm st) (emit AmiDisconnect st)"

fun ttyspy_loop :: "env \<Rightarrow> round list \<Rightarrow> state \<Rightarrow> unit outcome" where
  "ttyspy_loop env [] st = Running () st"
| "ttyspy_loop env (r # rs) st =
     (case (if ttychan st = []
            then get_channel env (sel_input r) (sel_stack r) (st\<lparr>new_channel := 1\<rparr>)
            else Returned 0 (st\<lparr>new_channel := 1\<rparr>)) of
        Undefined s \<Rightarrow> Undefined s
      | Running l s \<Rightarrow> Running () s
      | Returned rc st2 \<Rightarrow>
          if rc \<noteq> 0 then Returned 0 (ttyspy_end st2)
          else
            (case ami_action_response_result env ''TddRx''
                    (''Channel:'' @ ttychan st2 @ [CR, LF] @ ''Options:'' @ TTY_RX_OPTIONS) st2 of
               (res, st3) \<Rightarrow>
                 if res \<noteq> 0
                 then Returned 0
                        (ttyspy_end
                          (emit (Eprintf (''Failed to enable TTY on channel '' @ ttychan st3 @ [LF])) st3))
                 else
                   (let st4 = emit Fflush
                                (emit (Printf TTY_MENU_OPTS)
                                  (emit (Printf (''*** AsTTYSpy ***'' @ [LF]))
                                    (emit (Printf TERM_CLEAR) st3)));
                        t1 = (ttyterm st4)\<lparr>c_lflag := c_lflag (ttyterm st4) AND NOT ICANON\<rparr>;
                        t2 = t1\<lparr>c_lflag := c_lflag t1 AND NOT ECHO\<rparr>;
                        st5 = tcsetattr t2 (st4\<lparr>ttyterm := t2, tty_active := 2\<rparr>)
                    in case handle_input env (key_input r) (key_stack r) st5 of
                         Undefined s \<Rightarrow> Undefined s
                       | Running l s \<Rightarrow> Running () s
                       | Returned rc' st6 \<Rightarrow>
                           if rc' \<noteq> 0 then Returned 0 (ttyspy_end st6)
                           else ttyspy_loop env rs (st6\<lparr>ttychan := []\<rparr>))))"

text \<open>
  \<open>ttyspy\<close>: \<open>tcgetattr\<close> saves the attributes of the terminal in \<open>origterm\<close>,
  canonical mode is switched off, the handler of SIGINT is installed, and the loop
  starts.
\<close>

definition ttyspy :: "env \<Rightarrow> round list \<Rightarrow> state \<Rightarrow> unit outcome" where
  "ttyspy env rounds st =
     (let st1 = st\<lparr>origterm := tty_attr st\<rparr>;
          st2 = st1\<lparr>ttyterm := origterm st1\<rparr>;
          st3 = st2\<lparr>ttyterm := (ttyterm st2)\<lparr>c_lflag := c_lflag (ttyterm st2) AND NOT ICANON\<rparr>\<rparr>;
          st4 = emit SignalSIGINT st3;
          st5 = st4\<lparr>tty_active := 1\<rparr>;
          st6 = tcsetattr (ttyterm st5) st5
      in ttyspy_loop env rounds st6)"

subsection \<open>The two threads together\<close>

text \<open>
  The main thread sends text with \<open>send_msg\<close>; the event thread runs \<open>ami_callback\<close>.
  Both take \<open>ttymutex\<close> around the turn indicator and their output, so a run of the
  two is a sequence of whole calls, in any order.
\<close>

datatype party_ev = LocalSend string | RemoteEvent ami_event

fun interleave :: "env \<Rightarrow> party_ev list \<Rightarrow> state \<Rightarrow> state option" where
  "interleave env [] st = Some st"
| "interleave env (LocalSend typed # evs) st = interleave env evs (snd (send_msg env typed st))"
| "interleave env (RemoteEvent event # evs) st =
     (case ami_callback env event st of None \<Rightarrow> None | Some st' \<Rightarrow> interleave env evs st')"

text \<open>What went to stdout, call by call, and the tones that were sent, in order.\<close>

fun printed :: "effect list \<Rightarrow> string list" where
  "printed [] = []"
| "printed (Printf s # es) = s # printed es"
| "printed (e # es) = printed es"

fun tones :: "effect list \<Rightarrow> string" where
  "tones [] = []"
| "tones (Sent (AmiAction name params) res # es) =
     (if name = ''PlayDTMF'' then last params # tones es else tones es)"
| "tones (e # es) = tones es"

text \<open>
  The effects of dialling the characters \<open>ds\<close> on a server where every action
  succeeds: for each tone character its PlayDTMF request and the delay of 100 ms, and
  nothing for any other character.
\<close>

fun tone_effects :: "string \<Rightarrow> string \<Rightarrow> effect list" where
  "tone_effects chan [] = []"
| "tone_effects chan (d # ds) =
     (if IS_DTMF d
      then [Sent (AmiAction ''PlayDTMF'' (''Channel:'' @ chan @ [CR, LF] @ ''Digit:'' @ [d])) 0,
            Usleep 100000]
      else []) @ tone_effects chan ds"

text \<open>The requests that enable the relay (TddRx) among the effects, in order.\<close>

fun relay_requests :: "effect list \<Rightarrow> ami_request list" where
  "relay_requests [] = []"
| "relay_requests (Sent (AmiAction name params) res # es) =
     (if name = ''TddRx'' then AmiAction name params # relay_requests es else relay_requests es)"
| "relay_requests (e # es) = relay_requests es"

text \<open>An event the relay accepts: a text delivery for the active channel.\<close>

definition for_active_channel :: "state \<Rightarrow> ami_event \<Rightarrow> bool" where
  "for_active_channel st event =
     (ami_keyvalue event ''Event'' = Some ''TddRxMsg'' \<and>
      ami_keyvalue event ''Channel'' = Some (ttychan st) \<and>
      ami_keyvalue event ''Message'' \<noteq> None)"

text \<open>
  The specification's reading of the display, to compare the code with: the payload
  backslash-n is a line break, any other payload is shown with every underscore as a
  space; a label is shown exactly where the speaker changes, before the first text of
  the new speaker.
\<close>

definition decode_payload :: "string \<Rightarrow> string" where
  "decode_payload msg =
     (if msg = [BACKSLASH, CHR ''n''] then [LF]
      else map (\<lambda>c. if c = CHR ''_'' then CHR '' '' else c) msg)"

fun turn_labelled :: "bool \<Rightarrow> party_ev list \<Rightarrow> string list" where
  "turn_labelled local [] = []"
| "turn_labelled local (LocalSend typed # evs) =
     (if local then [] else [LF # ''CA : '']) @ typed # turn_labelled True evs"
| "turn_labelled local (RemoteEvent event # evs) =
     (if local then [LF # ''TTY: ''] else []) @
     decode_payload (the (ami_keyvalue event ''Message'')) # turn_labelled False evs"

subsection \<open>What reaches the terminal\<close>





subsection \<open>A sample terminal, environment and session\<close>

text \<open>
  A terminal in its usual cooked mode, a server on which every action succeeds, a
  directory with two channels between the header and the completion event, and a
  session that is active on the second channel.
\<close>

definition cooked :: termios where
  "cooked = \<lparr>c_iflag = 0x500, c_oflag = 0x5, c_cflag = 0xBF, c_lflag = 0x8A3B, c_cc = []\<rparr>"

definition ex_listing :: ami_response where
  "ex_listing =
     [map_of [(''Response'', ''Success''), (''EventList'', ''start'')],
      map_of [(''Event'', ''CoreShowChannel''), (''Channel'', ''SIP/alice-00000001''),
              (''Duration'', ''00:01:05''), (''CallerIDNum'', ''100''), (''ConnectedLineNum'', ''200'')],
      map_of [(''Event'', ''CoreShowChannel''), (''Channel'', ''SIP/bob-00000002''),
              (''Duration'', ''00:01:05''), (''CallerIDNum'', ''200''), (''ConnectedLineNum'', ''100'')],
      map_of [(''Event'', ''CoreShowChannelsComplete''), (''ListItems'', ''2'')]]"

definition ex_env :: env where
  "ex_env = \<lparr>action_result = (\<lambda>tr rq. 0), strdup_ok = (\<lambda>tr. True),
             show_channels = (\<lambda>tr. Some ex_listing),
             dial_read = (\<lambda>tr. Some (''1800#'' @ [LF]))\<rparr>"

definition ex_state :: state where
  "ex_state = \<lparr>ttychan = ''SIP/bob-00000002'', origterm = cooked,
               ttyterm = cooked\<lparr>c_lflag := 0x8A31\<rparr>, new_channel = 0, our_turn = 0,
               tty_active = 2, always_refresh = 0, tty_attr = cooked\<lparr>c_lflag := 0x8A31\<rparr>,
               effects = []\<rparr>"

definition ex_rx :: ami_event where
  "ex_rx = map_of [(''Event'', ''TddRxMsg''), (''Channel'', ''SIP/bob-00000002''),
                   (''Message'', ''GO_AHEAD'')]"

definition ex_env_failing :: env where
  "ex_env_failing = ex_env\<lparr>action_result := (\<lambda>tr rq. - 1)\<rparr>"

definition ex_idle :: state where
  "ex_idle = \<lparr>ttychan = [], origterm = cooked, ttyterm = cooked\<lparr>c_lflag := 0x8A39\<rparr>,
              new_channel = 1, our_turn = 0, tty_active = 1, always_refresh = 0,
              tty_attr = cooked\<lparr>c_lflag := 0x8A39\<rparr>, effects = []\<rparr>"

definition ex_gc_stack :: gc_locals where
  "ex_gc_stack = \<lparr>channo = [], chan_no = 0, gc_resp = None, gc_i = 0, invalid = 0\<rparr>"

text \<open>The state and the locals of \<open>get_channel\<close> once the sample directory is on the screen.\<close>

definition ex_prompted :: state where
  "ex_prompted = snd (refresh_listing ex_env ex_gc_stack ex_idle)"

definition ex_gc_listed :: gc_locals where
  "ex_gc_listed = ex_gc_stack\<lparr>gc_resp := Some ex_listing, gc_i := 3\<rparr>"

text \<open>
  The globals as \<open>main\<close> leaves them when the channel came with \<open>-c\<close>, on a cooked
  terminal; a pass of the loop of \<open>ttyspy\<close> with no input yet; and a user who dials
  18005551212 first and 1800# later.
\<close>

definition ex_round :: round where
  "ex_round = \<lparr>sel_input = [], sel_stack = ex_gc_stack, key_input = [],
               key_stack = replicate 64 NUL\<rparr>"

definition ex_start :: state where
  "ex_start = \<lparr>ttychan = ''SIP/bob-00000002'',
               origterm = \<lparr>c_iflag = 0, c_oflag = 0, c_cflag = 0, c_lflag = 0, c_cc = []\<rparr>,
               ttyterm = \<lparr>c_iflag = 0, c_oflag = 0, c_cflag = 0, c_lflag = 0, c_cc = []\<rparr>,
               new_channel = 0, our_turn = 0, tty_active = 0, always_refresh = 0,
               tty_attr = cooked, effects = []\<rparr>"

definition ex_env_redial :: env where
  "ex_env_redial = ex_env\<lparr>dial_read :=
     (\<lambda>tr. if tones tr = [] then Some (''18005551212'' @ [LF]) else Some (''1800#'' @ [LF]))\<rparr>"

definition ex_locals :: hi_locals where
  "ex_locals = \<lparr>dtmf_mode = 0, got_escape = 0, dialnum = replicate 64 NUL\<rparr>"

section \<open>Properties\<close>

subsection \<open>Shared lemmas\<close>

lemma replace_char_map: "replace_char a b s = map (\<lambda>c. if c = a then b else c) s"
  by (induction s) simp_all

lemma printed_append: "printed (xs @ ys) = printed xs @ printed ys"
  by (induction xs rule: printed.induct) simp_all

subsection \<open>Inbound text\<close>

lemma ami_callback_before_session:
  "tty_active st < 1 \<Longrightarrow> ami_callback env event st = Some st"
  by (simp add: ami_callback_def)

text \<open>
  C2. An event the relay accepts (the relay is fully active, the event is a text
  delivery for the active channel) is displayed as follows: after the label of the
  remote side, if the turn was local, the payload backslash-n is written as exactly one
  line break; any other payload is written with every underscore as a space and every
  other character as it came; stdout is flushed. The duplicate of the payload must have
  been allocated.
\<close>

theorem ami_callback_display:
  assumes "2 \<le> tty_active st"
    and "ami_keyvalue event ''Event'' = Some ''TddRxMsg''"
    and "ami_keyvalue event ''Channel'' = Some (ttychan st)"
    and "ami_keyvalue event ''Message'' = Some msg"
    and "msg = [BACKSLASH, CHR ''n''] \<or>
         strdup_ok env (effects st @ (if our_turn st \<noteq> 0 then [Printf (LF # ''TTY: '')] else []))"
  shows "map_option effects (ami_callback env event st) =
           Some (effects st @
                 (if our_turn st \<noteq> 0 then [Printf (LF # ''TTY: '')] else []) @
                 [Printf (if msg = [BACKSLASH, CHR ''n''] then [LF]
                          else map (\<lambda>c. if c = CHR ''_'' then CHR '' '' else c) msg),
                  Fflush])"
  using assms
  by (auto simp add: ami_callback_def replace_char_map emit_def Let_def)

theorem ami_callback_display_witness:
  "2 \<le> tty_active ex_state \<and>
   ami_keyvalue ex_rx ''Event'' = Some ''TddRxMsg'' \<and>
   ami_keyvalue ex_rx ''Channel'' = Some (ttychan ex_state) \<and>
   ami_keyvalue ex_rx ''Message'' = Some ''GO_AHEAD'' \<and>
   strdup_ok ex_env (effects ex_state) \<and>
   map_option effects (ami_callback ex_env ex_rx ex_state) = Some [Printf ''GO AHEAD'', Fflush]"
  using ami_callback_display [of ex_state ex_rx "''GO_AHEAD''" ex_env]
  by (simp add: ex_state_def ex_rx_def ex_env_def ami_keyvalue_def BACKSLASH_def)

subsection \<open>Outbound text\<close>

text \<open>
  C3. When \<open>send_msg\<close> has its duplicate of the typed string, the message it hands to
  the TddTx action is the typed string with every space replaced by an underscore and
  no other character changed, and what it writes to stdout after the label (if any) is
  the typed string unchanged, whether the action succeeds or not.
\<close>

theorem send_msg_request_and_echo:
  assumes "strdup_ok env (effects st)"
  shows "let sent = map (\<lambda>c. if c = CHR '' '' then CHR ''_'' else c) typed;
             req = AmiAction ''TddTx'' (''Channel:'' @ ttychan st @ [CR, LF] @ ''Message:'' @ sent);
             res = action_result env (effects st) req
         in fst (send_msg env typed st) = res \<and>
            effects (snd (send_msg env typed st)) =
              effects st @ [Sent req res] @
              (if res = 0 \<and> our_turn st = 0 then [Printf (LF # ''CA : '')] else []) @
              [Printf typed] @
              [if res = 0 then Fflush else Eprintf (LF # ''*** CALL DISCONNECTED ***'' @ [LF])]"
  using assms
  by (simp add: send_msg_def ami_action_response_result_def replace_char_map emit_def Let_def)

theorem send_msg_request_and_echo_witness:
  "strdup_ok ex_env (effects ex_state) \<and>
   fst (send_msg ex_env ''HI YOU GA'' ex_state) = 0 \<and>
   effects (snd (send_msg ex_env ''HI YOU GA'' ex_state)) =
     [Sent (AmiAction ''TddTx'' (''Channel:SIP/bob-00000002'' @ [CR, LF] @ ''Message:HI_YOU_GA'')) 0,
      Printf (LF # ''CA : ''), Printf ''HI YOU GA'', Fflush]"
  using send_msg_request_and_echo [of ex_env ex_state "''HI YOU GA''"]
  by (simp add: ex_state_def ex_env_def Let_def)






subsection \<open>The turn indicator\<close>

lemma send_msg_ok_step:
  assumes "\<forall>tr rq. action_result env tr rq = 0" and "\<forall>tr. strdup_ok env tr"
  shows "printed (effects (snd (send_msg env typed st))) =
           printed (effects st) @ (if our_turn st \<noteq> 0 then [] else [LF # ''CA : '']) @ [typed]"
    and "our_turn (snd (send_msg env typed st)) = (if our_turn st = 0 then 1 else our_turn st)"
    and "tty_active (snd (send_msg env typed st)) = tty_active st"
    and "ttychan (snd (send_msg env typed st)) = ttychan st"
  using assms
  by (simp_all add: send_msg_def ami_action_response_result_def emit_def Let_def printed_append)

lemma ami_callback_ok_step:
  assumes "\<forall>tr. strdup_ok env tr" and "2 \<le> tty_active st" and "for_active_channel st event"
  shows "\<exists>st'. ami_callback env event st = Some st' \<and>
           printed (effects st') =
             printed (effects st) @ (if our_turn st \<noteq> 0 then [LF # ''TTY: ''] else []) @
             [decode_payload (the (ami_keyvalue event ''Message''))] \<and>
           our_turn st' = 0 \<and> tty_active st' = tty_active st \<and> ttychan st' = ttychan st"
  using assms
  by (auto simp add: ami_callback_def for_active_channel_def decode_payload_def replace_char_map
        emit_def Let_def printed_append)

lemma interleave_ok:
  assumes "\<forall>tr rq. action_result env tr rq = 0" and "\<forall>tr. strdup_ok env tr"
  shows "2 \<le> tty_active st \<Longrightarrow>
         \<forall>event. RemoteEvent event \<in> set evs \<longrightarrow> for_active_channel st event \<Longrightarrow>
         \<exists>st'. interleave env evs st = Some st' \<and>
           printed (effects st') = printed (effects st) @ turn_labelled (our_turn st \<noteq> 0) evs \<and>
           (our_turn st \<in> {0, 1} \<longrightarrow> our_turn st' \<in> {0, 1}) \<and>
           (evs \<noteq> [] \<longrightarrow> (our_turn st' \<noteq> 0) = (\<exists>typed. last evs = LocalSend typed))"
proof (induction evs arbitrary: st)
  case Nil
  then show ?case by simp
next
  case (Cons ev evs)
  show ?case
  proof (cases ev)
    case (LocalSend typed)
    let ?s = "snd (send_msg env typed st)"
    note step = send_msg_ok_step [OF assms, of typed st]
    have "2 \<le> tty_active ?s" using Cons.prems(1) step(3) by simp
    moreover have "\<forall>event. RemoteEvent event \<in> set evs \<longrightarrow> for_active_channel ?s event"
      using Cons.prems(2) step(4) by (simp add: for_active_channel_def)
    ultimately obtain st' where st': "interleave env evs ?s = Some st'"
      "printed (effects st') = printed (effects ?s) @ turn_labelled (our_turn ?s \<noteq> 0) evs"
      "our_turn ?s \<in> {0, 1} \<longrightarrow> our_turn st' \<in> {0, 1}"
      "evs \<noteq> [] \<longrightarrow> (our_turn st' \<noteq> 0) = (\<exists>typed. last evs = LocalSend typed)"
      using Cons.IH [of ?s] by blast
    have nz: "our_turn ?s \<noteq> 0" using step(2) by simp
    have e: "evs = [] \<Longrightarrow> st' = ?s" using st'(1) by simp
    show ?thesis
      using LocalSend st' step nz e by (cases "evs = []") auto
  next
    case (RemoteEvent event)
    have acc: "for_active_channel st event" using Cons.prems(2) RemoteEvent by simp
    obtain s where s: "ami_callback env event st = Some s"
      "printed (effects s) =
             printed (effects st) @ (if our_turn st \<noteq> 0 then [LF # ''TTY: ''] else []) @
             [decode_payload (the (ami_keyvalue event ''Message''))]"
      "our_turn s = 0" "tty_active s = tty_active st" "ttychan s = ttychan st"
      using ami_callback_ok_step [OF assms(2) Cons.prems(1) acc] by blast
    have "2 \<le> tty_active s" using Cons.prems(1) s(4) by simp
    moreover have "\<forall>event. RemoteEvent event \<in> set evs \<longrightarrow> for_active_channel s event"
      using Cons.prems(2) s(5) by (simp add: for_active_channel_def)
    ultimately obtain st' where st': "interleave env evs s = Some st'"
      "printed (effects st') = printed (effects s) @ turn_labelled (our_turn s \<noteq> 0) evs"
      "our_turn s \<in> {0, 1} \<longrightarrow> our_turn st' \<in> {0, 1}"
      "evs \<noteq> [] \<longrightarrow> (our_turn st' \<noteq> 0) = (\<exists>typed. last evs = LocalSend typed)"
      using Cons.IH [of s] by blast
    have e: "evs = [] \<Longrightarrow> st' = s" using st'(1) by simp
    show ?thesis
      using RemoteEvent st' s e by (cases "evs = []") auto
  qed
qed

text \<open>
  C4. In an active session on a server where every action succeeds, take any sequence
  of local sends and accepted remote events, in any order. It runs to the end; what
  it writes to stdout is exactly what the specification's rule gives (a label where the
  speaker changes and nowhere else); \<open>our_turn\<close> stays one of 0 and 1, and is nonzero
  at the end exactly when the last call was a local send. In particular, a send
  followed by a receive writes the typed text, one remote label, and the decoded
  payload; two sends in a row write no label between them, and neither do two receives.
\<close>

theorem turn_indicator:
  assumes "\<forall>tr rq. action_result env tr rq = 0" and "\<forall>tr. strdup_ok env tr"
    and "2 \<le> tty_active st"
    and "\<forall>event. RemoteEvent event \<in> set evs \<longrightarrow> for_active_channel st event"
    and "for_active_channel st e1" and "for_active_channel st e2"
  shows "(\<exists>st'. interleave env evs st = Some st' \<and>
            printed (effects st') = printed (effects st) @ turn_labelled (our_turn st \<noteq> 0) evs \<and>
            (our_turn st \<in> {0, 1} \<longrightarrow> our_turn st' \<in> {0, 1}) \<and>
            (evs \<noteq> [] \<longrightarrow> (our_turn st' \<noteq> 0) = (\<exists>typed. last evs = LocalSend typed))) \<and>
         map_option (printed \<circ> effects) (interleave env [LocalSend typed, RemoteEvent e1] st) =
           Some (printed (effects st) @ (if our_turn st \<noteq> 0 then [] else [LF # ''CA : '']) @
                 [typed, LF # ''TTY: '', decode_payload (the (ami_keyvalue e1 ''Message''))]) \<and>
         map_option (printed \<circ> effects) (interleave env [LocalSend typed, LocalSend typed'] st) =
           Some (printed (effects st) @ (if our_turn st \<noteq> 0 then [] else [LF # ''CA : '']) @
                 [typed, typed']) \<and>
         map_option (printed \<circ> effects) (interleave env [RemoteEvent e1, RemoteEvent e2] st) =
           Some (printed (effects st) @ (if our_turn st \<noteq> 0 then [LF # ''TTY: ''] else []) @
                 [decode_payload (the (ami_keyvalue e1 ''Message'')),
                  decode_payload (the (ami_keyvalue e2 ''Message''))])"
proof -
  have a: "map_option (printed \<circ> effects) (interleave env [LocalSend typed, RemoteEvent e1] st) =
           Some (printed (effects st) @ (if our_turn st \<noteq> 0 then [] else [LF # ''CA : '']) @
                 [typed, LF # ''TTY: '', decode_payload (the (ami_keyvalue e1 ''Message''))])"
    using interleave_ok [OF assms(1,2,3), of "[LocalSend typed, RemoteEvent e1]"] assms(5)
    by auto
  have b: "map_option (printed \<circ> effects) (interleave env [LocalSend typed, LocalSend typed'] st) =
           Some (printed (effects st) @ (if our_turn st \<noteq> 0 then [] else [LF # ''CA : '']) @
                 [typed, typed'])"
    using interleave_ok [OF assms(1,2,3), of "[LocalSend typed, LocalSend typed']"]
    by auto
  have c: "map_option (printed \<circ> effects) (interleave env [RemoteEvent e1, RemoteEvent e2] st) =
           Some (printed (effects st) @ (if our_turn st \<noteq> 0 then [LF # ''TTY: ''] else []) @
                 [decode_payload (the (ami_keyvalue e1 ''Message'')),
                  decode_payload (the (ami_keyvalue e2 ''Message''))])"
    using interleave_ok [OF assms(1,2,3), of "[RemoteEvent e1, RemoteEvent e2]"] assms(5,6)
    by auto
  show ?thesis
    using interleave_ok [OF assms(1,2,3,4)] a b c by blast
qed

theorem turn_indicator_witness:
  "action_result ex_env = (\<lambda>tr rq. 0) \<and> strdup_ok ex_env = (\<lambda>tr. True) \<and>
   2 \<le> tty_active ex_state \<and> for_active_channel ex_state ex_rx \<and>
   map_option (printed \<circ> effects)
     (interleave ex_env [LocalSend ''HI'', RemoteEvent ex_rx] ex_state) =
     Some [LF # ''CA : '', ''HI'', LF # ''TTY: '', ''GO AHEAD''] \<and>
   map_option (printed \<circ> effects)
     (interleave ex_env [LocalSend ''HI'', LocalSend ''GA''] ex_state) =
     Some [LF # ''CA : '', ''HI'', ''GA''] \<and>
   map_option (printed \<circ> effects)
     (interleave ex_env [RemoteEvent ex_rx, RemoteEvent ex_rx] ex_state) =
     Some [''GO AHEAD'', ''GO AHEAD'']"
  using turn_indicator [of ex_env ex_state "[LocalSend ''HI'', RemoteEvent ex_rx]" ex_rx ex_rx
      "''HI''" "''GA''"]
  by (simp add: ex_env_def ex_state_def ex_rx_def for_active_channel_def ami_keyvalue_def
      decode_payload_def BACKSLASH_def)

subsection \<open>The escape key\<close>

lemma esc_command_got_escape:
  "esc_command env c loc st = Running loc' st' \<Longrightarrow> got_escape loc' = got_escape loc"
  by (auto simp add: esc_command_def Let_def
      split: if_splits option.splits scan_result.splits prod.splits)

lemma handle_key_got_escape:
  "handle_key env c loc st = Running loc' st' \<Longrightarrow>
     got_escape loc' = (if c = KEY_ESCAPE then 1 else 0)"
  by (auto simp add: handle_key_def split: if_splits prod.splits dest: esc_command_got_escape)

lemma handle_input_loop_append:
  "handle_input_loop env (evs @ evs') loc st =
     (case handle_input_loop env evs loc st of
        Running loc1 st1 \<Rightarrow> handle_input_loop env evs' loc1 st1
      | Returned rc st1 \<Rightarrow> Returned rc st1
      | Undefined st1 \<Rightarrow> Undefined st1)"
  by (induction env evs loc st rule: handle_input_loop.induct)
     (simp_all split: outcome.splits)

text \<open>
  C9, as the code has it. The escape key sets \<open>got_escape\<close>, also when it is already
  set. A key other than the escape key that arrives while \<open>got_escape\<close> is set is
  dispatched as a command, with \<open>got_escape\<close> cleared, and the command leaves it
  cleared. So after any sequence of keys that leaves the loop running, \<open>got_escape\<close>
  is set exactly when the last key was the escape key.
\<close>

theorem escape_pending:
  "handle_key env KEY_ESCAPE loc st = Running (loc\<lparr>got_escape := 1\<rparr>) st \<and>
   (c \<noteq> KEY_ESCAPE \<and> got_escape loc \<noteq> 0 \<longrightarrow>
      handle_key env c loc st = esc_command env c (loc\<lparr>got_escape := 0\<rparr>) st) \<and>
   (\<forall>loc' st'. esc_command env c (loc\<lparr>got_escape := 0\<rparr>) st = Running loc' st' \<longrightarrow>
      got_escape loc' = 0) \<and>
   (\<forall>loc' st'. handle_input_loop env (evs @ [PollIn (Some c)]) loc st = Running loc' st' \<longrightarrow>
      got_escape loc' = (if c = KEY_ESCAPE then 1 else 0))"
proof -
  have a: "handle_key env KEY_ESCAPE loc st = Running (loc\<lparr>got_escape := 1\<rparr>) st"
    by (simp add: handle_key_def)
  have b: "c \<noteq> KEY_ESCAPE \<and> got_escape loc \<noteq> 0 \<longrightarrow>
      handle_key env c loc st = esc_command env c (loc\<lparr>got_escape := 0\<rparr>) st"
    by (simp add: handle_key_def)
  have c: "\<forall>loc' st'. esc_command env c (loc\<lparr>got_escape := 0\<rparr>) st = Running loc' st' \<longrightarrow>
      got_escape loc' = 0"
    by (auto dest: esc_command_got_escape)
  have d: "\<forall>loc' st'. handle_input_loop env (evs @ [PollIn (Some c)]) loc st = Running loc' st' \<longrightarrow>
      got_escape loc' = (if c = KEY_ESCAPE then 1 else 0)"
    by (auto simp add: handle_input_loop_append split: outcome.splits dest: handle_key_got_escape)
  show ?thesis using a b c d by blast
qed

theorem escape_pending_witness:
  "CHR ''h'' \<noteq> KEY_ESCAPE \<and> got_escape (ex_locals\<lparr>got_escape := 1\<rparr>) \<noteq> 0 \<and>
   handle_key ex_env KEY_ESCAPE ex_locals ex_state = Running (ex_locals\<lparr>got_escape := 1\<rparr>) ex_state \<and>
   handle_key ex_env (CHR ''h'') (ex_locals\<lparr>got_escape := 1\<rparr>) ex_state =
     esc_command ex_env (CHR ''h'') ex_locals ex_state \<and>
   esc_command ex_env (CHR ''h'') ex_locals ex_state =
     Running ex_locals (ex_state\<lparr>effects := [Printf (LF # TTY_MENU_OPTS), Fflush]\<rparr>) \<and>
   handle_input_loop ex_env [PollIn (Some KEY_ESCAPE), PollIn (Some (CHR ''h''))] ex_locals ex_state =
     Running ex_locals (ex_state\<lparr>effects := [Printf (LF # TTY_MENU_OPTS), Fflush]\<rparr>)"
proof -
  have ne: "CHR ''h'' \<noteq> KEY_ESCAPE" "got_escape (ex_locals\<lparr>got_escape := 1\<rparr>) \<noteq> 0"
    by (simp_all add: KEY_ESCAPE_def)
  have cmd: "esc_command ex_env (CHR ''h'') ex_locals ex_state =
     Running ex_locals (ex_state\<lparr>effects := [Printf (LF # TTY_MENU_OPTS), Fflush]\<rparr>)"
    by (simp add: esc_command_def emit_def ex_state_def)
  have l0: "ex_locals\<lparr>got_escape := 1, got_escape := 0\<rparr> = ex_locals"
    by (simp add: ex_locals_def)
  note t = escape_pending [of ex_env "ex_locals\<lparr>got_escape := 1\<rparr>" ex_state "CHR ''h''" "[]"]
  have esc: "handle_key ex_env KEY_ESCAPE ex_locals ex_state =
      Running (ex_locals\<lparr>got_escape := 1\<rparr>) ex_state"
    using escape_pending [of ex_env ex_locals ex_state "CHR ''h''" "[]"] by blast
  have key: "handle_key ex_env (CHR ''h'') (ex_locals\<lparr>got_escape := 1\<rparr>) ex_state =
     esc_command ex_env (CHR ''h'') ex_locals ex_state"
    using t ne l0 by simp
  have loop: "handle_input_loop ex_env [PollIn (Some KEY_ESCAPE), PollIn (Some (CHR ''h''))]
      ex_locals ex_state =
     Running ex_locals (ex_state\<lparr>effects := [Printf (LF # TTY_MENU_OPTS), Fflush]\<rparr>)"
    by (simp add: esc key cmd)
  show ?thesis using ne esc key cmd loop by blast
qed

text \<open>
  The claim as the specification states it fails where the key that follows the escape
  key is the escape key again: it is consumed, \<open>got_escape\<close> stays set, and no command
  is dispatched.
\<close>

theorem escape_twice_counterexample:
  "handle_input ex_env [PollIn (Some KEY_ESCAPE), PollIn (Some KEY_ESCAPE)] (replicate 64 NUL) ex_state =
     Running \<lparr>dtmf_mode = 0, got_escape = 1, dialnum = replicate 64 NUL\<rparr> ex_state \<and>
   handle_key ex_env KEY_ESCAPE (ex_locals\<lparr>got_escape := 1\<rparr>) ex_state \<noteq>
     esc_command ex_env KEY_ESCAPE ex_locals ex_state"
  by (simp add: handle_input_def handle_key_def esc_command_def ex_locals_def KEY_ESCAPE_def)

subsection \<open>The channel directory\<close>

lemma print_rows_eq:
  "0 \<le> n \<Longrightarrow>
   print_rows events n st =
     (max n (int (length events) - 1),
      st\<lparr>effects := effects st @
         map (\<lambda>k. Printf (AMI_CHAN_FORMAT_MSG (int k) (events ! k))) [nat n ..< length events - 1]\<rparr>)"
proof (induction events n st rule: print_rows.induct)
  case (1 events n st)
  show ?case
  proof (cases "n < int (length events) - 1")
    case True
    then have lt: "nat n < length events - 1" using "1.prems" by linarith
    have nn: "nat (n + 1) = Suc (nat n)" using "1.prems" by simp
    have "print_rows events n st =
            print_rows events (n + 1) (emit (Printf (AMI_CHAN_FORMAT_MSG n (events ! nat n))) st)"
      using True by (subst print_rows.simps) simp
    also have "\<dots> = (max (n + 1) (int (length events) - 1),
      (emit (Printf (AMI_CHAN_FORMAT_MSG n (events ! nat n))) st)\<lparr>effects :=
         effects (emit (Printf (AMI_CHAN_FORMAT_MSG n (events ! nat n))) st) @
         map (\<lambda>k. Printf (AMI_CHAN_FORMAT_MSG (int k) (events ! k))) [nat (n + 1) ..< length events - 1]\<rparr>)"
      using "1.IH" [OF True] "1.prems" by simp
    finally show ?thesis
      using True "1.prems" upt_conv_Cons [OF lt] by (simp add: emit_def nn)
  next
    case False
    then have "\<not> nat n < length events - 1" using "1.prems" by linarith
    then show ?thesis using False by (subst print_rows.simps) simp
  qed
qed

lemma digit_char_value: "n < 10 \<Longrightarrow> of_char (''0123456789'' ! n) - 48 = n"
proof -
  assume "n < 10"
  then have "n \<in> {0, 1, 2, 3, 4, 5, 6, 7, 8, 9}" by auto
  then show ?thesis by auto
qed

lemma digit_char_mem: "n < 10 \<Longrightarrow> ''0123456789'' ! n \<in> set ''0123456789''"
  by (rule nth_mem) simp

lemma digit_char_zero: "n < 10 \<Longrightarrow> 0 < n \<Longrightarrow> ''0123456789'' ! n \<noteq> CHR ''0''"
proof -
  assume "n < 10" "0 < n"
  then have "n \<in> {1, 2, 3, 4, 5, 6, 7, 8, 9}" by auto
  then show ?thesis by auto
qed

lemma show_nat_decimal:
  "show_nat n \<noteq> [] \<and> set (show_nat n) \<subseteq> set ''0123456789'' \<and>
   foldl (\<lambda>a c. 10 * a + (of_char c - 48)) 0 (show_nat n) = n \<and>
   (0 < n \<longrightarrow> hd (show_nat n) \<noteq> CHR ''0'')"
proof (induction n rule: show_nat.induct)
  case (1 n)
  show ?case
  proof (cases "n < 10")
    case True
    define d where "d = ''0123456789'' ! n"
    have sn: "show_nat n = [d]" unfolding d_def using True by (subst show_nat.simps) simp
    have dm: "d \<in> set ''0123456789''" unfolding d_def using True by (rule digit_char_mem)
    have dv: "of_char d - 48 = n" unfolding d_def using True by (rule digit_char_value)
    have dz: "0 < n \<longrightarrow> d \<noteq> CHR ''0''" unfolding d_def using True digit_char_zero by blast
    have ds: "set [d] \<subseteq> set ''0123456789''" using dm by auto
    show ?thesis unfolding sn using ds dv dz by (simp del: set_simps)
  next
    case False
    let ?q = "n div 10"
    define d where "d = ''0123456789'' ! (n mod 10)"
    have r: "n mod 10 < 10" by simp
    have eq: "show_nat n = show_nat ?q @ [d]"
      unfolding d_def using False by (subst show_nat.simps) simp
    have dm: "d \<in> set ''0123456789''" unfolding d_def using r by (rule digit_char_mem)
    have dv: "of_char d - 48 = n mod 10" unfolding d_def using r by (rule digit_char_value)
    have q: "0 < ?q" using False by simp
    note ih = "1.IH" [OF False]
    have v: "foldl (\<lambda>a c. 10 * a + (of_char c - 48)) 0 (show_nat n) = n"
      unfolding eq using ih dv by simp
    have h: "hd (show_nat n) \<noteq> CHR ''0''" unfolding eq using ih q by simp
    have m: "set (show_nat n) \<subseteq> set ''0123456789''"
      unfolding eq using ih dm by auto
    have ne: "show_nat n \<noteq> []" unfolding eq by simp
    show ?thesis using v h m ne by blast
  qed
qed

lemma header_text:
  "AMI_CHAN_FORMAT_HDR =
     ''   # | Channel                                  | Duration |       Caller ID |      Called No.'' @ [LF]"
  by code_simp

text \<open>
  C5. When the directory query gives \<open>N \<ge> 2\<close> raw events, \<open>print_channels\<close> writes
  the count \<open>N - 2\<close>, the header line, and then one row for each raw event but the
  first and the last: \<open>N - 2\<close> rows, in the order of the raw sequence. Row \<open>k\<close>, for
  \<open>k = 1, ..., N - 2\<close>, is the decimal numeral of \<open>k\<close> padded on the left to four
  characters, then the channel name of raw event \<open>k\<close> padded on the right to forty,
  then its duration, caller number and connected number padded on the left, with bars
  between and a line break at the end. \<open>show_nat\<close> gives decimal numerals: digits
  only, the value read back by Horner's rule, and no leading zero. \<open>i\<close> is left at
  \<open>N - 1\<close>.
\<close>

theorem print_channels_listing:
  assumes "show_channels env (effects st) = Some events" and "2 \<le> length events"
  shows
    "let lpad = (\<lambda>w s. replicate (w - length s) (CHR '' '') @ s);
         rpad = (\<lambda>w s. s @ replicate (w - length s) (CHR '' ''));
         field = (\<lambda>k key. case (events ! k) key of None \<Rightarrow> ''(null)'' | Some v \<Rightarrow> v);
         row = (\<lambda>k. lpad 4 (show_nat k) @ '' | '' @ rpad 40 (field k ''Channel'') @ '' | '' @
                      lpad 8 (field k ''Duration'') @ '' | '' @
                      lpad 15 (field k ''CallerIDNum'') @ '' | '' @
                      lpad 15 (field k ''ConnectedLineNum'') @ [LF])
     in print_channels env st =
           (Some (events, int (length events) - 1),
            st\<lparr>effects := effects st @
               [ShowChannels,
                Printf (''Channels: '' @ show_nat (length events - 2) @ [LF]),
                Printf (''   # | Channel                                  | Duration |       Caller ID |      Called No.'' @ [LF])] @
               map (\<lambda>k. Printf (row k)) [1 ..< length events - 1]\<rparr>) \<and>
         length [1 ..< length events - 1] = length events - 2 \<and>
         (\<forall>n. show_nat n \<noteq> [] \<and> set (show_nat n) \<subseteq> set ''0123456789'' \<and>
              foldl (\<lambda>a c. 10 * a + (of_char c - 48)) 0 (show_nat n) = n \<and>
              (0 < n \<longrightarrow> hd (show_nat n) \<noteq> CHR ''0''))"
proof -
  have "show_int (int (length events) - 2) = show_nat (length events - 2)"
    using assms(2) by (simp add: show_int_def nat_diff_distrib')
  moreover have "\<And>k. show_int (int k) = show_nat k"
    by (simp add: show_int_def)
  ultimately show ?thesis
    using assms show_nat_decimal
    by (simp add: print_channels_def Let_def print_rows_eq emit_def max_def header_text
        AMI_CHAN_FORMAT_MSG_def rjust_def ljust_def str_arg_def ami_keyvalue_def)
qed

theorem print_channels_listing_witness:
  "show_channels ex_env (effects ex_state) = Some ex_listing \<and> 2 \<le> length ex_listing \<and>
   print_channels ex_env ex_state =
     (Some (ex_listing, 3),
      ex_state\<lparr>effects :=
        [ShowChannels, Printf (''Channels: 2'' @ [LF]),
         Printf (''   # | Channel                                  | Duration |       Caller ID |      Called No.'' @ [LF]),
         Printf (''   1 | SIP/alice-00000001                       | 00:01:05 |             100 |             200'' @ [LF]),
         Printf (''   2 | SIP/bob-00000002                         | 00:01:05 |             200 |             100'' @ [LF])]\<rparr>)"
  using print_channels_listing [of ex_env ex_state ex_listing]
  by (simp add: ex_env_def ex_state_def ex_listing_def show_nat.simps upt_rec Let_def
      numeral_eq_Suc)


lemma digit_val_nth: "n < 10 \<Longrightarrow> digit_val (''0123456789'' ! n) = int n"
proof -
  assume "n < 10"
  then have "n \<in> {0, 1, 2, 3, 4, 5, 6, 7, 8, 9}" by auto
  then show ?thesis by (auto simp add: digit_val_def)
qed

lemma isdigit_nth: "n < 10 \<Longrightarrow> isdigit (''0123456789'' ! n)"
  unfolding isdigit_def by (rule nth_mem) simp

lemma show_nat_isdigit: "\<forall>c \<in> set (show_nat n). isdigit c"
proof (induction n rule: show_nat.induct)
  case (1 n)
  show ?case
  proof (cases "n < 10")
    case True
    then show ?thesis by (subst show_nat.simps) (simp add: isdigit_nth)
  next
    case False
    then show ?thesis using "1.IH" by (subst show_nat.simps) (simp add: isdigit_nth)
  qed
qed

lemma show_nat_not_Nil: "show_nat n \<noteq> []"
  by (subst show_nat.simps) simp

lemma foldl_show_nat: "foldl (\<lambda>a c. a * 10 + digit_val c) 0 (show_nat n) = int n"
proof (induction n rule: show_nat.induct)
  case (1 n)
  show ?case
  proof (cases "n < 10")
    case True
    then show ?thesis by (subst show_nat.simps) (simp add: digit_val_nth)
  next
    case False
    have "int (n div 10) * 10 + int (n mod 10) = int n"
      by (metis of_nat_add of_nat_mult of_nat_numeral div_mult_mod_eq)
    then show ?thesis using False "1.IH"
      by (subst show_nat.simps) (simp add: digit_val_nth)
  qed
qed

lemma isdigit_cases: "isdigit c \<Longrightarrow> \<not> isspace c \<and> c \<noteq> CHR ''-'' \<and> c \<noteq> CHR ''+'' \<and> c \<noteq> LF"
  by (auto simp add: isdigit_def isspace_def LF_def CR_def)

lemma atoi_show_nat:
  assumes "n \<le> 2147483647"
  shows "atoi (show_nat n @ LF # rest) = Some (int n)"
proof -
  obtain d ds where ds: "show_nat n = d # ds"
    using show_nat_not_Nil [of n] by (cases "show_nat n") auto
  have dig: "\<forall>c \<in> set (d # ds). isdigit c" using show_nat_isdigit [of n] ds by simp
  then have d: "\<not> isspace d" "d \<noteq> CHR ''-''" "d \<noteq> CHR ''+''"
    using isdigit_cases [of d] by auto
  have tw: "takeWhile isdigit ((d # ds) @ LF # rest) = d # ds"
    using dig isdigit_cases [of LF] by (subst takeWhile_append2) auto
  have "foldl (\<lambda>a c. a * 10 + digit_val c) 0 (d # ds) = int n"
    using foldl_show_nat [of n] ds by simp
  then show ?thesis
    using assms d tw unfolding atoi_def ds by (simp add: Let_def)
qed

lemma tolower_q: "tolower c = CHR ''q'' \<longleftrightarrow> c = CHR ''q'' \<or> c = CHR ''Q''"
  by (auto simp add: tolower_def split: option.splits if_splits)

lemma tolower_LF: "tolower c = LF \<longleftrightarrow> c = LF"
  by (auto simp add: tolower_def LF_def split: option.splits if_splits)

lemma strcasecmp_q:
  "strcasecmp_eq s [CHR ''q'', LF] \<longleftrightarrow> s = [CHR ''q'', LF] \<or> s = [CHR ''Q'', LF]"
proof -
  have q: "tolower (CHR ''q'') = CHR ''q''" and l: "tolower LF = LF"
    by (simp_all add: tolower_q tolower_LF)
  have "map tolower s = [CHR ''q'', LF] \<longleftrightarrow> s = [CHR ''q'', LF] \<or> s = [CHR ''Q'', LF]"
    by (auto simp add: map_eq_Cons_conv tolower_q tolower_LF)
  then show ?thesis
    unfolding strcasecmp_eq_def by (simp add: q l)
qed

lemma atoi_not_number:
  "atoi [CHR ''q'', LF] = Some 0" "atoi [CHR ''Q'', LF] = Some 0" "atoi [LF] = Some 0"
  by (simp_all add: atoi_def isspace_def isdigit_def LF_def)

lemma print_channels_Some:
  "show_channels env (effects st) = Some events \<Longrightarrow>
   \<exists>n st2. print_channels env st = (Some (events, n), st2)"
  by (auto simp add: print_channels_def Let_def split: prod.splits)

lemma refresh_listing_invalid:
  assumes "invalid loc \<noteq> 0" and "new_channel st \<noteq> 0 \<or> always_refresh st \<noteq> 0"
    and "\<forall>tr. show_channels env tr \<noteq> None"
  shows "\<exists>loc' st' pre. refresh_listing env loc st = (Some loc', st') \<and> invalid loc' = 0 \<and>
           effects st' = pre @ [Printf (''Invalid channel number: '' @ channo loc)] @
             (if LF \<in> set (channo loc) then [] else [Printf [LF]]) @
             [Printf ''=> Channel No.: '', Fflush]"
proof -
  let ?b = "selection_banner st"
  obtain events where ev: "show_channels env (effects ?b) = Some events"
    using assms(3) [rule_format, of "effects ?b"] by auto
  obtain n st2 where pc: "print_channels env ?b = (Some (events, n), st2)"
    using print_channels_Some [OF ev] by blast
  show ?thesis
    using assms(1,2) pc by (simp add: refresh_listing_def Let_def emit_def)
qed

lemma print_channels_result:
  assumes "print_channels env st = (Some (events, n), st2)"
  shows "show_channels env (effects st) = Some events \<and> n = max 1 (int (length events) - 1)"
proof (cases "show_channels env (effects st)")
  case None
  then show ?thesis using assms by (simp add: print_channels_def Let_def)
next
  case (Some evs)
  then show ?thesis
    using assms by (auto simp add: print_channels_def Let_def print_rows_eq)
qed

lemma refresh_listing_locals:
  assumes "new_channel st \<noteq> 0 \<or> always_refresh st \<noteq> 0"
    and "refresh_listing env loc st = (Some loc1, st1)"
  shows "\<exists>events. show_channels env (effects (selection_banner st)) = Some events \<and>
           gc_resp loc1 = Some events \<and> gc_i loc1 = max 1 (int (length events) - 1) \<and>
           invalid loc1 = 0 \<and> new_channel st1 = 0"
proof -
  obtain r st2 where p: "print_channels env (selection_banner st) = (r, st2)"
    by (cases "print_channels env (selection_banner st)")
  show ?thesis
  proof (cases r)
    case None
    then show ?thesis using assms p by (simp add: refresh_listing_def Let_def)
  next
    case (Some en)
    obtain events n where en: "en = (events, n)" by (cases en)
    have "show_channels env (effects (selection_banner st)) = Some events \<and>
          n = max 1 (int (length events) - 1)"
      using print_channels_result [of env "selection_banner st" events n st2] p Some en by simp
    moreover have "loc1 = loc\<lparr>gc_resp := Some events, gc_i := n, invalid := 0\<rparr>" "new_channel st1 = 0"
      using assms p Some en by (auto simp add: refresh_listing_def Let_def)
    ultimately show ?thesis by simp
  qed
qed

text \<open>
  C6, as the code has it. The listing in effect when a line arrives is the one the last
  refresh put on the screen: \<open>resp\<close> holds its \<open>N\<close> raw events and \<open>i\<close> is \<open>N - 1\<close>,
  or 1 when that is less (\<open>refresh_listing_locals\<close>).
  Then: the line \<open>q\<close> or \<open>Q\<close> and a line break makes \<open>get_channel\<close> return -1
  (quit); the empty line sets \<open>new_channel\<close> and goes round again (refresh); a line
  whose value under \<open>atoi\<close> is \<open>k\<close> with \<open>1 \<le> k \<le> N - 2\<close> stores the channel name of
  raw event \<open>k\<close> in \<open>ttychan\<close> and returns 0, and the decimal numeral of such a \<open>k\<close>
  is such a line; any other line whose value under \<open>atoi\<close> fits an \<open>int\<close> sets
  \<open>invalid\<close> and \<open>new_channel\<close> and goes round again, and the refresh that follows, if
  the directory query succeeds, writes the line back after \<open>Invalid channel number:\<close>
  and prompts again.
\<close>

theorem get_channel_selection:
  assumes "refresh_listing env loc (if topo \<and> tty_active st = 1 then st\<lparr>new_channel := 1\<rparr> else st) =
             (Some loc1, st1)"
    and "gc_resp loc1 = Some events" and "gc_i loc1 = max 1 (int (length events) - 1)"
    and "wait_for_input polls = Some 1"
  shows
   "(s = ''q'' @ [LF] \<or> s = ''Q'' @ [LF] \<longrightarrow>
       get_channel_loop env (SelEv topo polls (Some s) # rest) loc st = Returned (- 1) st1) \<and>
    get_channel_loop env (SelEv topo polls (Some [LF]) # rest) loc st =
      get_channel_loop env rest (loc1\<lparr>channo := [LF]\<rparr>) (st1\<lparr>new_channel := 1\<rparr>) \<and>
    (atoi s = Some k \<and> 1 \<le> k \<and> k \<le> int (length events) - 2 \<and>
     ami_keyvalue (events ! nat k) ''Channel'' = Some ch \<and> length ch < 256 \<longrightarrow>
       get_channel_loop env (SelEv topo polls (Some s) # rest) loc st =
         Returned 0 (st1\<lparr>ttychan := ch\<rparr>)) \<and>
    (1 \<le> n \<and> n \<le> length events - 2 \<and> length events \<le> 2147483647 \<and>
     ami_keyvalue (events ! n) ''Channel'' = Some ch \<and> length ch < 256 \<longrightarrow>
       get_channel_loop env (SelEv topo polls (Some (show_nat n @ [LF])) # rest) loc st =
         Returned 0 (st1\<lparr>ttychan := ch\<rparr>)) \<and>
    (atoi s = Some k \<and> (k < 1 \<or> int (length events) - 2 < k) \<and>
     s \<noteq> ''q'' @ [LF] \<and> s \<noteq> ''Q'' @ [LF] \<and> s \<noteq> [LF] \<longrightarrow>
       get_channel_loop env (SelEv topo polls (Some s) # rest) loc st =
         get_channel_loop env rest (loc1\<lparr>channo := s, chan_no := k, invalid := 1\<rparr>)
           (st1\<lparr>new_channel := 1\<rparr>) \<and>
       ((\<forall>tr. show_channels env tr \<noteq> None) \<longrightarrow>
          (\<exists>loc' st' pre.
             refresh_listing env (loc1\<lparr>channo := s, chan_no := k, invalid := 1\<rparr>)
               (st1\<lparr>new_channel := 1\<rparr>) = (Some loc', st') \<and> invalid loc' = 0 \<and>
             effects st' = pre @ [Printf (''Invalid channel number: '' @ s)] @
               (if LF \<in> set s then [] else [Printf [LF]]) @
               [Printf ''=> Channel No.: '', Fflush])))"
proof -
  note a = assms(1) assms(4)
  have quit: "get_channel_loop env (SelEv topo polls (Some s) # rest) loc st = Returned (- 1) st1"
    if "s = ''q'' @ [LF] \<or> s = ''Q'' @ [LF]"
    using that a by (auto simp add: strcasecmp_q gc_finish_def)
  have nq: "\<not> strcasecmp_eq [LF] [CHR ''q'', LF]"
    by (simp add: strcasecmp_q)
  have refresh: "get_channel_loop env (SelEv topo polls (Some [LF]) # rest) loc st =
      get_channel_loop env rest (loc1\<lparr>channo := [LF]\<rparr>) (st1\<lparr>new_channel := 1\<rparr>)"
    using a nq by simp
  have sel: "get_channel_loop env (SelEv topo polls (Some s) # rest) loc st =
         Returned 0 (st1\<lparr>ttychan := ch\<rparr>)"
    if "atoi s = Some k" "1 \<le> k" "k \<le> int (length events) - 2"
      "ami_keyvalue (events ! nat k) ''Channel'' = Some ch" "length ch < 256" for s k
  proof -
    have "\<not> strcasecmp_eq s [CHR ''q'', LF]" "s \<noteq> [LF]"
      using that(1,2) atoi_not_number by (auto simp add: strcasecmp_q)
    then show ?thesis
      using that a assms(2,3) by (simp add: gc_finish_def max_def)
  qed
  have dec: "get_channel_loop env (SelEv topo polls (Some (show_nat n @ [LF])) # rest) loc st =
         Returned 0 (st1\<lparr>ttychan := ch\<rparr>)"
    if "1 \<le> n" "n \<le> length events - 2" "length events \<le> 2147483647"
      "ami_keyvalue (events ! n) ''Channel'' = Some ch" "length ch < 256"
  proof -
    have "atoi (show_nat n @ [LF]) = Some (int n)"
      using that(2,3) by (intro atoi_show_nat) linarith
    then show ?thesis
      using sel [of "show_nat n @ [LF]" "int n"] that by auto
  qed
  have inv: "get_channel_loop env (SelEv topo polls (Some s) # rest) loc st =
         get_channel_loop env rest (loc1\<lparr>channo := s, chan_no := k, invalid := 1\<rparr>)
           (st1\<lparr>new_channel := 1\<rparr>)"
    if "atoi s = Some k" "k < 1 \<or> int (length events) - 2 < k"
      "s \<noteq> ''q'' @ [LF]" "s \<noteq> ''Q'' @ [LF]" "s \<noteq> [LF]"
    using that a assms(2,3) by (auto simp add: strcasecmp_q max_def)
  have again: "\<exists>loc' st' pre.
             refresh_listing env (loc1\<lparr>channo := s, chan_no := k, invalid := 1\<rparr>)
               (st1\<lparr>new_channel := 1\<rparr>) = (Some loc', st') \<and> invalid loc' = 0 \<and>
             effects st' = pre @ [Printf (''Invalid channel number: '' @ s)] @
               (if LF \<in> set s then [] else [Printf [LF]]) @
               [Printf ''=> Channel No.: '', Fflush]"
    if "\<forall>tr. show_channels env tr \<noteq> None"
    using refresh_listing_invalid [of "loc1\<lparr>channo := s, chan_no := k, invalid := 1\<rparr>"
        "st1\<lparr>new_channel := 1\<rparr>" env] that by simp
  show ?thesis
    using quit refresh sel [of s k] dec inv again by blast
qed

lemma ex_refresh:
  "refresh_listing ex_env ex_gc_stack ex_idle = (Some ex_gc_listed, ex_prompted)"
proof -
  have "show_channels ex_env (effects (selection_banner ex_idle)) = Some ex_listing"
    by (simp add: ex_env_def)
  then obtain st2 where "print_channels ex_env (selection_banner ex_idle) = (Some (ex_listing, 3), st2)"
    by (simp add: print_channels_def Let_def print_rows_eq ex_listing_def split: prod.splits)
  then show ?thesis
    unfolding ex_prompted_def ex_gc_listed_def
    by (simp add: refresh_listing_def Let_def ex_idle_def ex_gc_stack_def)
qed

theorem get_channel_selection_witness:
  "refresh_listing ex_env ex_gc_stack ex_idle = (Some ex_gc_listed, ex_prompted) \<and>
   gc_resp ex_gc_listed = Some ex_listing \<and> gc_i ex_gc_listed = max 1 (int (length ex_listing) - 1) \<and>
   wait_for_input [PollIn ()] = Some 1 \<and>
   atoi (''2'' @ [LF]) = Some 2 \<and>
   ami_keyvalue (ex_listing ! 2) ''Channel'' = Some ''SIP/bob-00000002'' \<and>
   get_channel_loop ex_env [SelEv False [PollIn ()] (Some (''2'' @ [LF]))] ex_gc_stack ex_idle =
     Returned 0 (ex_prompted\<lparr>ttychan := ''SIP/bob-00000002''\<rparr>) \<and>
   get_channel_loop ex_env [SelEv False [PollIn ()] (Some (''q'' @ [LF]))] ex_gc_stack ex_idle =
     Returned (- 1) ex_prompted \<and>
   get_channel_loop ex_env [SelEv False [PollIn ()] (Some [LF])] ex_gc_stack ex_idle =
     Running (ex_gc_listed\<lparr>channo := [LF]\<rparr>) (ex_prompted\<lparr>new_channel := 1\<rparr>) \<and>
   atoi (''0'' @ [LF]) = Some 0 \<and>
   get_channel_loop ex_env [SelEv False [PollIn ()] (Some (''0'' @ [LF]))] ex_gc_stack ex_idle =
     Running (ex_gc_listed\<lparr>channo := ''0'' @ [LF], chan_no := 0, invalid := 1\<rparr>)
       (ex_prompted\<lparr>new_channel := 1\<rparr>)"
proof -
  have z: "atoi (''0'' @ [LF]) = Some 0"
    by (simp add: atoi_def isspace_def isdigit_def digit_val_def LF_def CR_def)
  have a: "atoi (''2'' @ [LF]) = Some 2"
    by (simp add: atoi_def isspace_def isdigit_def digit_val_def LF_def CR_def)
  have l: "gc_resp ex_gc_listed = Some ex_listing" "gc_i ex_gc_listed = max 1 (int (length ex_listing) - 1)"
    "ami_keyvalue (ex_listing ! 2) ''Channel'' = Some ''SIP/bob-00000002''" "length ex_listing = 4"
    by (simp_all add: ex_gc_listed_def ex_listing_def ami_keyvalue_def)
  note sel = get_channel_selection [where env = ex_env and loc = ex_gc_stack and topo = False
        and st = ex_idle and ?loc1.0 = ex_gc_listed and ?st1.0 = ex_prompted and events = ex_listing
        and polls = "[PollIn ()]" and rest = "[]"]
  show ?thesis
    using sel [where s = "''2'' @ [LF]" and k = 2 and ch = "''SIP/bob-00000002''" and n = 2]
      sel [where s = "''q'' @ [LF]" and k = 0 and ch = "[]" and n = 0]
      sel [where s = "''0'' @ [LF]" and k = 0 and ch = "[]" and n = 0] ex_refresh a z l
    by (simp del: get_channel_loop.simps add: get_channel_loop.simps(1) LF_def)
qed

text \<open>
  The claim as the specification states it fails on a line that is no numeral but starts
  with one: \<open>atoi\<close> reads the \<open>1\<close> of \<open>1x\<close> and the first channel is selected.
\<close>

theorem atoi_prefix_counterexample:
  "returned (get_channel ex_env [SelEv False [PollIn ()] (Some (''1x'' @ [LF]))] ex_gc_stack ex_idle) = Some 0 \<and>
   ttychan (state_of (get_channel ex_env [SelEv False [PollIn ()] (Some (''1x'' @ [LF]))] ex_gc_stack ex_idle)) =
     ''SIP/alice-00000001''"
  by code_simp

subsection \<open>Enabling the relay\<close>

lemma relay_requests_append: "relay_requests (xs @ ys) = relay_requests xs @ relay_requests ys"
  by (induction xs rule: relay_requests.induct) simp_all

lemma relay_requests_emit:
  "relay_requests (effects (emit e st)) = relay_requests (effects st) @ relay_requests [e]"
  by (simp add: emit_def relay_requests_append)

lemma relay_requests_tcsetattr:
  "relay_requests (effects (tcsetattr t st)) = relay_requests (effects st)"
  by (simp add: tcsetattr_def relay_requests_emit)

lemma relay_requests_send_msg:
  "relay_requests (effects (snd (send_msg env typed st))) = relay_requests (effects st)"
  by (simp add: send_msg_def ami_action_response_result_def Let_def relay_requests_emit)

lemma relay_requests_send_dtmf:
  "relay_requests (effects (snd (send_dtmf env d st))) = relay_requests (effects st)"
  by (simp add: send_dtmf_def ami_action_response_result_def Let_def relay_requests_emit)

lemma relay_requests_dial_digits:
  "relay_requests (effects (scan_state (dial_digits env ds st))) = relay_requests (effects st)"
proof (induction ds arbitrary: st)
  case Nil
  then show ?case by simp
next
  case (Cons d ds)
  obtain res st1 where s: "send_dtmf env d st = (res, st1)" by (cases "send_dtmf env d st")
  then have "relay_requests (effects st1) = relay_requests (effects st)"
    using relay_requests_send_dtmf [of env d st] by simp
  then show ?case using Cons.IH s by (simp add: relay_requests_emit)
qed

lemma relay_requests_esc_command:
  "relay_requests (effects (state_of (esc_command env c loc st))) = relay_requests (effects st)"
proof -
  have dial: "relay_requests (effects (state_of
      (case dial_digits env buf s of
         ScanEnd s' \<Rightarrow> Running l s' | ScanFail s' \<Rightarrow> Returned (- 1) s'
       | ScanOverrun s' \<Rightarrow> Undefined s'))) = relay_requests (effects s)" for buf s and l :: hi_locals
    using relay_requests_dial_digits [of env buf s] by (cases "dial_digits env buf s") simp_all
  obtain res st1 where g: "send_msg env ''HELLO GA'' st = (res, st1)"
    by (cases "send_msg env ''HELLO GA'' st")
  then have "relay_requests (effects st1) = relay_requests (effects st)"
    using relay_requests_send_msg [of env "''HELLO GA''" st] by simp
  then show ?thesis
    using g
    by (simp add: esc_command_def Let_def dial relay_requests_emit relay_requests_tcsetattr
        split: option.splits)
qed

lemma relay_requests_handle_key:
  "relay_requests (effects (state_of (handle_key env c loc st))) = relay_requests (effects st)"
proof -
  obtain r1 s1 where a: "send_dtmf env c st = (r1, s1)" by (cases "send_dtmf env c st")
  obtain r2 s2 where b: "send_msg env (cstr [c, NUL]) st = (r2, s2)"
    by (cases "send_msg env (cstr [c, NUL]) st")
  have "relay_requests (effects s1) = relay_requests (effects st)"
    "relay_requests (effects s2) = relay_requests (effects st)"
    using relay_requests_send_dtmf [of env c st] relay_requests_send_msg [of env "cstr [c, NUL]" st] a b
    by simp_all
  then show ?thesis
    using a b by (simp add: handle_key_def relay_requests_esc_command)
qed

lemma relay_requests_handle_input_loop:
  "relay_requests (effects (state_of (handle_input_loop env evs loc st))) = relay_requests (effects st)"
proof (induction env evs loc st rule: handle_input_loop.induct)
  case (6 env c evs loc st)
  show ?case
    using "6.IH" relay_requests_handle_key [of env c loc st]
    by (cases "handle_key env c loc st") simp_all
qed simp_all

lemma relay_requests_rows: "relay_requests (map (\<lambda>k. Printf (f k)) ks) = []"
  by (induction ks) simp_all

lemma relay_requests_print_channels:
  "relay_requests (effects (snd (print_channels env st))) = relay_requests (effects st)"
  by (simp add: print_channels_def Let_def print_rows_eq relay_requests_emit emit_def
      relay_requests_append relay_requests_rows split: option.splits)

lemma relay_requests_refresh_listing:
  "relay_requests (effects (snd (refresh_listing env loc st))) = relay_requests (effects st)"
proof -
  have b: "relay_requests (effects (selection_banner st)) = relay_requests (effects st)"
    by (simp add: selection_banner_def relay_requests_emit)
  obtain r st2 where p: "print_channels env (selection_banner st) = (r, st2)"
    by (cases "print_channels env (selection_banner st)")
  then have "relay_requests (effects st2) = relay_requests (effects st)"
    using relay_requests_print_channels [of env "selection_banner st"] b by simp
  then show ?thesis
    using p by (simp add: refresh_listing_def Let_def relay_requests_emit split: option.splits)
qed

lemma relay_requests_gc_finish:
  "relay_requests (effects (state_of (gc_finish res loc st))) = relay_requests (effects st)"
  by (simp add: gc_finish_def split: option.splits)

lemma relay_requests_get_channel_loop:
  "relay_requests (effects (state_of (get_channel_loop env evs loc st))) = relay_requests (effects st)"
proof (induction evs arbitrary: loc st)
  case Nil
  then show ?case by simp
next
  case (Cons ev evs)
  obtain topo polls line where ev: "ev = SelEv topo polls line" by (cases ev)
  let ?st0 = "if topo \<and> tty_active st = 1 then st\<lparr>new_channel := 1\<rparr> else st"
  obtain r st1 where rl: "refresh_listing env loc ?st0 = (r, st1)"
    by (cases "refresh_listing env loc ?st0")
  have st1: "relay_requests (effects st1) = relay_requests (effects st)"
    using relay_requests_refresh_listing [of env loc ?st0] rl by simp
  show ?case
    unfolding ev using rl st1 Cons.IH
    by (simp add: relay_requests_gc_finish split: option.splits)
qed

lemma relay_requests_ttyspy_end:
  "relay_requests (effects (ttyspy_end st)) = relay_requests (effects st)"
  by (simp add: ttyspy_end_def relay_requests_tcsetattr relay_requests_emit)

text \<open>
  C8. Once a pass of the loop of \<open>ttyspy\<close> has its channel (given with \<open>-c\<close>, or
  chosen in \<open>get_channel\<close>, which sends no such request), the pass sends exactly one
  TddRx request, for that channel, whatever follows in the pass. If the request fails,
  \<open>ttyspy\<close> writes the error message to stderr, disconnects, restores the terminal
  and returns, with no further request and whatever input is left.
\<close>

theorem enable_relay_once:
  assumes "(if ttychan st = []
            then get_channel env (sel_input r) (sel_stack r) (st\<lparr>new_channel := 1\<rparr>)
            else Returned 0 (st\<lparr>new_channel := 1\<rparr>)) = Returned 0 st2"
    and "action_result env (effects st2)
           (AmiAction ''TddRx'' (''Channel:'' @ ttychan st2 @ [CR, LF] @ ''Options:'' @ TTY_RX_OPTIONS)) = res"
  shows "relay_requests (effects st2) = relay_requests (effects st) \<and>
         relay_requests (effects (state_of (ttyspy_loop env [r] st))) =
           relay_requests (effects st) @
           [AmiAction ''TddRx'' (''Channel:'' @ ttychan st2 @ [CR, LF] @ ''Options:'' @ TTY_RX_OPTIONS)] \<and>
         (res \<noteq> 0 \<longrightarrow>
            ttyspy_loop env (r # rs) st =
              Returned 0
                (st2\<lparr>tty_attr := origterm st2,
                     effects := effects st2 @
                       [Sent (AmiAction ''TddRx''
                                (''Channel:'' @ ttychan st2 @ [CR, LF] @ ''Options:'' @ TTY_RX_OPTIONS)) res,
                        Eprintf (''Failed to enable TTY on channel '' @ ttychan st2 @ [LF]),
                        AmiDisconnect,
                        Tcsetattr (origterm st2)]\<rparr>))"
proof -
  let ?req = "AmiAction ''TddRx'' (''Channel:'' @ ttychan st2 @ [CR, LF] @ ''Options:'' @ TTY_RX_OPTIONS)"
  have sel: "relay_requests (effects st2) = relay_requests (effects st)"
  proof (cases "ttychan st = []")
    case True
    then show ?thesis
      using assms(1) relay_requests_get_channel_loop
        [of env "sel_input r" "(sel_stack r)\<lparr>gc_resp := None, invalid := 0\<rparr>" "st\<lparr>new_channel := 1\<rparr>"]
      by (simp add: get_channel_def)
  next
    case False
    then show ?thesis using assms(1) by auto
  qed
  have act: "ami_action_response_result env ''TddRx''
               (''Channel:'' @ ttychan st2 @ [CR, LF] @ ''Options:'' @ TTY_RX_OPTIONS) st2 =
             (res, emit (Sent ?req res) st2)"
    using assms(2) by (simp add: ami_action_response_result_def Let_def)
  have fail: "ttyspy_loop env (r # rs) st =
              Returned 0
                (st2\<lparr>tty_attr := origterm st2,
                     effects := effects st2 @
                       [Sent ?req res,
                        Eprintf (''Failed to enable TTY on channel '' @ ttychan st2 @ [LF]),
                        AmiDisconnect,
                        Tcsetattr (origterm st2)]\<rparr>)" if "res \<noteq> 0" for rs
    using that assms(1) act
    by (simp add: ttyspy_end_def tcsetattr_def emit_def)
  have one: "relay_requests (effects (state_of (ttyspy_loop env [r] st))) =
           relay_requests (effects st) @ [?req]"
  proof (cases "res = 0")
    case False
    then show ?thesis using fail [of "[]"] sel by (simp add: relay_requests_append)
  next
    case True
    let ?st4 = "emit Fflush
                  (emit (Printf TTY_MENU_OPTS)
                    (emit (Printf (''*** AsTTYSpy ***'' @ [LF]))
                      (emit (Printf TERM_CLEAR) (emit (Sent ?req res) st2))))"
    let ?t1 = "(ttyterm ?st4)\<lparr>c_lflag := c_lflag (ttyterm ?st4) AND NOT ICANON\<rparr>"
    let ?t2 = "?t1\<lparr>c_lflag := c_lflag ?t1 AND NOT ECHO\<rparr>"
    let ?st5 = "tcsetattr ?t2 (?st4\<lparr>ttyterm := ?t2, tty_active := 2\<rparr>)"
    have five: "relay_requests (effects ?st5) = relay_requests (effects st) @ [?req]"
      using sel by (simp add: tcsetattr_def emit_def relay_requests_append)
    have hi: "relay_requests (effects (state_of (handle_input env (key_input r) (key_stack r) ?st5))) =
              relay_requests (effects st) @ [?req]"
      using five by (simp add: handle_input_def relay_requests_handle_input_loop)
    have loop: "ttyspy_loop env [r] st =
        (case handle_input env (key_input r) (key_stack r) ?st5 of
           Undefined s \<Rightarrow> Undefined s
         | Running l s \<Rightarrow> Running () s
         | Returned rc' st6 \<Rightarrow>
             if rc' \<noteq> 0 then Returned 0 (ttyspy_end st6)
             else ttyspy_loop env [] (st6\<lparr>ttychan := []\<rparr>))"
      using True assms(1) act by (simp add: Let_def)
    show ?thesis
      unfolding loop using hi
      by (cases "handle_input env (key_input r) (key_stack r) ?st5")
         (simp_all add: relay_requests_ttyspy_end)
  qed
  show ?thesis using sel one fail by blast
qed

theorem enable_relay_once_witness:
  "ttychan ex_state \<noteq> [] \<and>
   ttyspy_loop ex_env_failing [ex_round] ex_state =
     Returned 0
       (ex_state\<lparr>new_channel := 1, tty_attr := cooked,
          effects :=
            [Sent (AmiAction ''TddRx'' (''Channel:SIP/bob-00000002'' @ [CR, LF] @ ''Options:b(1)s'')) (- 1),
             Eprintf (''Failed to enable TTY on channel SIP/bob-00000002'' @ [LF]),
             AmiDisconnect, Tcsetattr cooked]\<rparr>) \<and>
   relay_requests (effects (state_of (ttyspy_loop ex_env_failing [ex_round] ex_state))) =
     [AmiAction ''TddRx'' (''Channel:SIP/bob-00000002'' @ [CR, LF] @ ''Options:b(1)s'')]"
  using enable_relay_once [where env = ex_env_failing and st = ex_state and r = ex_round
      and ?st2.0 = "ex_state\<lparr>new_channel := 1\<rparr>" and res = "- 1" and rs = "[]"]
  by (simp add: ex_env_failing_def ex_env_def ex_state_def TTY_RX_OPTIONS_def
      del: ttyspy_loop.simps)



subsection \<open>Forced disconnect\<close>

lemma simple_disconnect_callback_effects:
  "simple_disconnect_callback st =
     st\<lparr>effects := effects st @ [Eprintf (LF # ''AMI was forcibly disconnected...'' @ [LF]), Exit 1]\<rparr>"
  by (simp add: simple_disconnect_callback_def emit_def)

lemma restore_term_effects:
  "restore_term st =
     st\<lparr>tty_active := 0, tty_attr := origterm st,
        effects := effects st @
          [Tcsetattr (origterm st), AmiDisconnect, Eprintf (LF # ''AsTTYSpy exiting...'' @ [LF]), Exit 1]\<rparr>"
  by (simp add: restore_term_def tcsetattr_def emit_def)

text \<open>
  C1 does not hold of the code. With the session active on a cooked terminal (so
  \<open>origterm\<close> is the cooked mode and the terminal has neither ICANON nor ECHO),
  \<open>simple_disconnect_callback\<close> exits with status 1 and the terminal still in raw
  mode, while \<open>restore_term\<close>, the handler of SIGINT, restores the cooked mode before
  it exits.
\<close>

theorem forced_disconnect_leaves_terminal_raw:
  "origterm (state_of (ttyspy ex_env [ex_round] ex_start)) = cooked \<and>
   tty_active (state_of (ttyspy ex_env [ex_round] ex_start)) = 2 \<and>
   tty_attr (simple_disconnect_callback (state_of (ttyspy ex_env [ex_round] ex_start))) =
     cooked\<lparr>c_lflag := 0x8A31\<rparr> \<and>
   last (effects (simple_disconnect_callback (state_of (ttyspy ex_env [ex_round] ex_start)))) = Exit 1 \<and>
   tty_attr (restore_term (state_of (ttyspy ex_env [ex_round] ex_start))) = cooked"
  by (simp add: ttyspy_def ex_round_def ex_start_def ex_env_def cooked_def Let_def tcsetattr_def
      emit_def ami_action_response_result_def handle_input_def simple_disconnect_callback_def
      restore_term_def ICANON_def ECHO_def)


subsection \<open>Dialling\<close>

lemma dial_digits_replicate_NUL: "0 < n \<Longrightarrow> dial_digits env (replicate n NUL) st = ScanEnd st"
  by (cases n) simp_all

text \<open>
  What the loop does right. On a buffer whose entry is followed by a NUL byte it sends
  the tone characters of the entry in order, each followed by the delay, and nothing
  for the other characters; and wherever a tone action fails it stops at once. So a
  first dial of 1800# on a stack of NUL bytes sends the five tones.
\<close>

lemma dial_digits_terminated:
  assumes "\<forall>tr rq. action_result env tr rq = 0" and "NUL \<notin> set ds"
  shows "dial_digits env (ds @ NUL # rest) st =
           ScanEnd (st\<lparr>effects := effects st @ tone_effects (ttychan st) ds\<rparr>)"
  using assms(2)
proof (induction ds arbitrary: st)
  case Nil
  then show ?case by simp
next
  case (Cons d ds)
  have s: "send_dtmf env d st =
             (0, st\<lparr>effects := effects st @
                [Sent (AmiAction ''PlayDTMF'' (''Channel:'' @ ttychan st @ [CR, LF] @ ''Digit:'' @ [d])) 0]\<rparr>)"
    using assms(1) by (simp add: send_dtmf_def ami_action_response_result_def emit_def Let_def)
  have d: "d \<noteq> NUL" "NUL \<notin> set ds" using Cons.prems by auto
  show ?case
  proof (cases "IS_DTMF d")
    case True
    then show ?thesis
      using d s Cons.IH [OF d(2)] by (simp add: emit_def)
  next
    case False
    then show ?thesis
      using d Cons.IH [OF d(2)] by simp
  qed
qed

lemma dial_digits_abort:
  assumes "d \<noteq> NUL" and "IS_DTMF d"
    and "action_result env (effects st)
           (AmiAction ''PlayDTMF'' (''Channel:'' @ ttychan st @ [CR, LF] @ ''Digit:'' @ [d])) = res"
    and "res \<noteq> 0"
  shows "dial_digits env (d # rest) st =
           ScanFail (st\<lparr>effects := effects st @
             [Sent (AmiAction ''PlayDTMF'' (''Channel:'' @ ttychan st @ [CR, LF] @ ''Digit:'' @ [d])) res]\<rparr>)"
  using assms by (simp add: send_dtmf_def ami_action_response_result_def emit_def Let_def)


lemma first_dial_of_1800:
  "tones (effects (state_of
     (handle_input ex_env [PollIn (Some KEY_ESCAPE), PollIn (Some (CHR ''1''))]
        (replicate 64 NUL) ex_state))) = ''1800#''"
  by (simp add: handle_input_def handle_key_def esc_command_def Let_def ex_env_def
      ex_state_def KEY_ESCAPE_def tcsetattr_def emit_def send_dtmf_def ami_action_response_result_def
      IS_DTMF_def isdigit_def NUL_def LF_def dial_digits_replicate_NUL [unfolded NUL_def])

text \<open>
  C7 does not hold of the code. \<open>read\<close> does not terminate what it stores in
  \<open>dialnum\<close>, and the loop sends tones up to the first NUL byte. A user who dials
  18005551212 and later 1800# gets ten tones for the second number: the five entered,
  and the five digits the first number left behind the line break.
\<close>

theorem redial_sends_stale_digits:
  "tones (effects (state_of
     (handle_input ex_env_redial
        [PollIn (Some KEY_ESCAPE), PollIn (Some (CHR ''1'')),
         PollIn (Some KEY_ESCAPE), PollIn (Some (CHR ''1''))]
        (replicate 64 NUL) ex_state))) =
   ''18005551212'' @ ''1800#51212''"
  by (simp add: handle_input_def handle_key_def esc_command_def Let_def ex_env_redial_def ex_env_def
      ex_state_def KEY_ESCAPE_def tcsetattr_def emit_def send_dtmf_def ami_action_response_result_def
      IS_DTMF_def isdigit_def NUL_def LF_def dial_digits_replicate_NUL [unfolded NUL_def])

end
